theory Spec2Isabelle
  imports Complex_Main "HOL-Library.Sublist" "HOL-Library.Product_Lexorder" "HOL-Library.Multiset"
begin

section \<open>Python values, exceptions, generators and logging\<close>

text \<open>
  The exceptions that the functions of \<^verbatim>\<open>db3dnl.py\<close> raise themselves or provoke in
  the interpreter. \<open>PgError\<close> stands for \<^verbatim>\<open>psycopg2.Error\<close>, raised by the driver.
\<close>

datatype py_error = IndexError | KeyError | ValueError | AttributeError | ClickException | PgError

text \<open>
  A generator is modelled by what a consumer observes when it drains it: the items
  yielded, in order, and the exception that ended the iteration, if any.
\<close>

type_synonym 'a gen = "'a list \<times> py_error option"

text \<open>The records the module hands to \<^verbatim>\<open>log\<close> (messages without their interpolated values).\<close>

datatype log_record =
    LogInfo string
  | LogWarningNotInIndex "string set"
  | LogError string

text \<open>
  \<^verbatim>\<open>str.lower()\<close> on the ASCII letters; every other character is left as it is.
\<close>

definition lower_char :: "char \<Rightarrow> char" where
  "lower_char c =
     (case map_of (zip ''ABCDEFGHIJKLMNOPQRSTUVWXYZ'' ''abcdefghijklmnopqrstuvwxyz'') c of
        Some d \<Rightarrow> d
      | None \<Rightarrow> c)"

definition lower :: "string \<Rightarrow> string" where
  "lower s = map lower_char s"

text \<open>
  A value of a result row: a scalar, a timestamp (type \<open>'d\<close>, \<^verbatim>\<open>datetime\<close>) or a
  nested array (the aggregated geometry). Numbers of the database are of type \<open>'r\<close>.
\<close>

datatype ('r, 'd) pyval =
    PNone
  | PInt int
  | PFloat 'r
  | PStr string
  | PDatetime 'd
  | PList "('r, 'd) pyval list"

text \<open>The nesting depth of an array value, along first elements.\<close>

fun nesting :: "('r, 'd) pyval \<Rightarrow> nat" where
  "nesting (PList []) = 1"
| "nesting (PList (v # vs)) = Suc (nesting v)"
| "nesting v = 0"

section \<open>Tile selection: \<^verbatim>\<open>with_list\<close>, \<^verbatim>\<open>tiles_in_index\<close>, \<^verbatim>\<open>all_in_index\<close>\<close>

text \<open>
  The tile index table is seen through its primary-key column: one tile id per row.
  Both queries are \<^verbatim>\<open>SELECT DISTINCT\<close> without an \<^verbatim>\<open>ORDER BY\<close>; the model returns the
  distinct ids in table order, and the theorems below speak of the set of ids only.
\<close>

type_synonym tile_index_table = "string list"

definition all_in_index :: "tile_index_table \<Rightarrow> string list" where
  "all_in_index idx = remdups idx"

definition tiles_in_index :: "tile_index_table \<Rightarrow> string list \<Rightarrow> log_record list \<times> string list" where
  "tiles_in_index idx tile_list =
     (let in_index = remdups (filter (\<lambda>t. t \<in> set tile_list) idx);
          not_found = set tile_list - set in_index
      in (if not_found \<noteq> {} then [LogWarningNotInIndex not_found] else [], in_index))"

definition with_list :: "tile_index_table \<Rightarrow> string list \<Rightarrow> log_record list \<times> (py_error + string list)" where
  "with_list idx tile_list =
     (case tile_list of
        [] \<Rightarrow> ([], Inl IndexError)
      | t # _ \<Rightarrow>
          (let (logged, in_index) =
                 (if ''all'' = lower t
                  then ([LogInfo ''Getting all tiles from the index.''], all_in_index idx)
                  else (let (warned, found) = tiles_in_index idx tile_list
                        in (LogInfo ''Verifying if the provided tiles are in the index.'' # warned,
                            found)))
           in if length in_index = 0 then (logged, Inl AttributeError)
              else (logged, Inr in_index)))"

section \<open>Record conversion: \<^verbatim>\<open>table_to_cityobjects\<close>, \<^verbatim>\<open>dbexport_to_cityobjects\<close>\<close>

text \<open>
  A result row is a dictionary; its items are kept in order. \<^verbatim>\<open>Geometry\<close> and
  \<^verbatim>\<open>CityObject\<close> are classes of the city-model library: a new \<^verbatim>\<open>CityObject(id)\<close> has
  no type, no geometry and no attributes; the boundary of a new \<^verbatim>\<open>Geometry(type, lod)\<close>
  is whatever the library's constructor leaves there, the parameter \<open>dflt\<close> below.
\<close>

type_synonym ('r, 'd) db_record = "(string \<times> ('r, 'd) pyval) list"

record ('r, 'd) Geometry =
  gtype :: string
  lod :: string
  boundaries :: "('r, 'd) pyval"

record ('r, 'd) CityObject =
  co_id :: "('r, 'd) pyval"
  co_type :: "string option"
  geometry :: "('r, 'd) Geometry list"
  attributes :: "string \<rightharpoonup> ('r, 'd) pyval"

definition getitem :: "('r, 'd) db_record \<Rightarrow> string \<Rightarrow> py_error + ('r, 'd) pyval" where
  "getitem record' key = (case map_of record' key of None \<Rightarrow> Inl KeyError | Some v \<Rightarrow> Inr v)"

text \<open>The loop over \<^verbatim>\<open>record.items()\<close> that fills \<^verbatim>\<open>co.attributes\<close>.\<close>

fun parse_attributes ::
  "('d \<Rightarrow> string) \<Rightarrow> ('r, 'd) db_record \<Rightarrow> (string \<rightharpoonup> ('r, 'd) pyval) \<Rightarrow> (string \<rightharpoonup> ('r, 'd) pyval)" where
  "parse_attributes isoformat [] attrs = attrs"
| "parse_attributes isoformat ((key, attr) # items) attrs =
     parse_attributes isoformat items
       (if key \<noteq> ''pk'' \<and> key \<noteq> ''geom'' \<and> key \<noteq> ''coid''
        then (case attr of
                PDatetime d \<Rightarrow> attrs(key \<mapsto> PStr (isoformat d))
              | _ \<Rightarrow> attrs(key \<mapsto> attr))
        else attrs)"

text \<open>The body of the loop of \<^verbatim>\<open>table_to_cityobjects\<close>, for one row.\<close>

definition record_to_cityobject ::
  "('r, 'd) pyval \<Rightarrow> ('d \<Rightarrow> string) \<Rightarrow> ('r, 'd) db_record \<Rightarrow> string \<Rightarrow> string \<Rightarrow> string
     \<Rightarrow> py_error + (('r, 'd) pyval \<times> ('r, 'd) CityObject)" where
  "record_to_cityobject dflt isoformat record' cotype geomtype lod' =
     (case getitem record' ''coid'' of
        Inl e \<Rightarrow> Inl e
      | Inr coid \<Rightarrow>
          (let geom = \<lparr>gtype = geomtype, lod = lod', boundaries = dflt\<rparr>;
               assigned =
                 (if geomtype = ''Solid''
                  then (case getitem record' ''geom'' of
                          Inl e \<Rightarrow> Inl e
                        | Inr g \<Rightarrow> Inr (geom\<lparr>boundaries := PList [g]\<rparr>))
                  else if geomtype = ''MultiSurface''
                  then (case getitem record' ''geom'' of
                          Inl e \<Rightarrow> Inl e
                        | Inr g \<Rightarrow> Inr (geom\<lparr>boundaries := g\<rparr>))
                  else Inr geom)
           in case assigned of
                Inl e \<Rightarrow> Inl e
              | Inr geom' \<Rightarrow>
                  Inr (coid,
                       \<lparr>co_id = coid, co_type = Some cotype, geometry = [geom'],
                        attributes = parse_attributes isoformat record' Map.empty\<rparr>)))"

fun table_to_cityobjects ::
  "('r, 'd) pyval \<Rightarrow> ('d \<Rightarrow> string) \<Rightarrow> ('r, 'd) db_record list \<Rightarrow> string \<Rightarrow> string \<Rightarrow> string
     \<Rightarrow> (('r, 'd) pyval \<times> ('r, 'd) CityObject) gen" where
  "table_to_cityobjects dflt isoformat [] cotype geomtype lod' = ([], None)"
| "table_to_cityobjects dflt isoformat (record' # tabledata) cotype geomtype lod' =
     (case record_to_cityobject dflt isoformat record' cotype geomtype lod' of
        Inl e \<Rightarrow> ([], Some e)
      | Inr y \<Rightarrow>
          (let (ys, raised) = table_to_cityobjects dflt isoformat tabledata cotype geomtype lod'
           in (y # ys, raised)))"

text \<open>
  \<^verbatim>\<open>dbexport_to_cityobjects\<close> drains the export, a generator itself: an exception of
  the export surfaces after the objects of the tables that were yielded before it.
\<close>

fun dbexport_to_cityobjects ::
  "('r, 'd) pyval \<Rightarrow> ('d \<Rightarrow> string) \<Rightarrow> ((string \<times> string) \<times> ('r, 'd) db_record list) gen \<Rightarrow> string
     \<Rightarrow> (('r, 'd) pyval \<times> ('r, 'd) CityObject) gen" where
  "dbexport_to_cityobjects dflt isoformat ([], raised) lod' = ([], raised)"
| "dbexport_to_cityobjects dflt isoformat (((cotype, cotable), tabledata) # dbexport, raised) lod' =
     (let geomtype = (if lower cotype = ''building'' then ''Solid'' else ''MultiSurface'');
          (ys, e) = table_to_cityobjects dflt isoformat tabledata cotype geomtype lod'
      in case e of
           Some err \<Rightarrow> (ys, Some err)
         | None \<Rightarrow>
             (let (zs, e') = dbexport_to_cityobjects dflt isoformat (dbexport, raised) lod'
              in (ys @ zs, e')))"

text \<open>
  The reading of the design notes: the type name contains \<^verbatim>\<open>building\<close>, whatever the
  case of its letters.
\<close>

definition contains_ci :: "string \<Rightarrow> string \<Rightarrow> bool" where
  "contains_ci pat s = (\<exists>k \<in> set (upt 0 (Suc (length s))). prefix (lower pat) (drop k (lower s)))"

text \<open>
  A result row of the export query has the columns \<^verbatim>\<open>coid\<close> and \<^verbatim>\<open>geom\<close>.
\<close>

definition has_keys :: "('r, 'd) db_record \<Rightarrow> bool" where
  "has_keys r = (map_of r ''coid'' \<noteq> None \<and> map_of r ''geom'' \<noteq> None)"

text \<open>The boundaries of the geometries of the objects a conversion yields, object by object.\<close>

definition row_boundaries :: "(('r, 'd) pyval \<times> ('r, 'd) CityObject) gen \<Rightarrow> ('r, 'd) pyval list list" where
  "row_boundaries out = map (\<lambda>y. map boundaries (geometry (snd y))) (fst out)"

section \<open>Composing the export query: \<^verbatim>\<open>build_query\<close> and its parts\<close>

text \<open>
  \<^verbatim>\<open>db.Schema\<close> wraps the configuration of a table: its schema and name, and under
  \<^verbatim>\<open>field\<close> the primary key, the city-object-id column, one geometry column per level
  of detail (in the order of the configuration) and the columns to exclude, some of
  which may be \<^verbatim>\<open>None\<close>. The tile index has one geometry column.
\<close>

record field_cfg =
  field_pk :: string
  field_cityobject_id :: string
  field_geometry :: "(string \<times> string) list"
  field_exclude :: "string option list"

record schema_cfg =
  schema_name :: string
  table_name :: string
  field :: field_cfg

record tile_index_cfg =
  tx_schema :: string
  tx_table :: string
  tx_pk :: string
  tx_geometry :: string

type_synonym sql_table = "string \<times> string"

definition tbl :: "schema_cfg \<Rightarrow> sql_table" where
  "tbl features = (schema_name features, table_name features)"

text \<open>
  A composed SQL statement is kept as the template it was formatted from, with the
  values of the placeholders the template uses. \<open>SqlEmpty\<close> is \<^verbatim>\<open>sql.Composed("")\<close>.
\<close>

datatype 'r sql =
    SqlEmpty
  | SqlPolygonsAll string string sql_table
  | SqlPolygonsBBox string string sql_table 'r 'r 'r 'r int
  | SqlWhereBBox string 'r 'r 'r 'r int
  | SqlPolygonsExtent string string sql_table string
  | SqlWhereExtent string string
  | SqlExtentTiles string sql_table string "string list"
  | SqlPolygonsTiles sql_table string string
  | SqlWhereTiles string
  | SqlQueryGeometry "'r sql" "'r sql"
  | SqlExport "'r sql" string string "string list" sql_table "'r sql" "'r sql"

text \<open>Truth value of an optional sequence: \<^verbatim>\<open>None\<close> and the empty sequence are false.\<close>

definition truthy :: "'a list option \<Rightarrow> bool" where
  "truthy x = (case x of None \<Rightarrow> False | Some xs \<Rightarrow> xs \<noteq> [])"

definition getattr_geometry :: "schema_cfg \<Rightarrow> string \<Rightarrow> py_error + string" where
  "getattr_geometry features lod' =
     (case map_of (field_geometry (field features)) lod' of
        None \<Rightarrow> Inl AttributeError
      | Some col \<Rightarrow> Inr col)"

definition subscript :: "'a list \<Rightarrow> nat \<Rightarrow> py_error + 'a" where
  "subscript xs i = (if i < length xs then Inr (xs ! i) else Inl IndexError)"

definition query_all :: "schema_cfg \<Rightarrow> string \<Rightarrow> py_error + ('r sql \<times> 'r sql \<times> 'r sql)" where
  "query_all features lod' =
     (case getattr_geometry features lod' of
        Inl e \<Rightarrow> Inl e
      | Inr geom \<Rightarrow>
          Inr (SqlPolygonsAll (field_pk (field features)) geom (tbl features), SqlEmpty, SqlEmpty))"

definition query_bbox :: "schema_cfg \<Rightarrow> 'r list \<Rightarrow> int \<Rightarrow> string \<Rightarrow> py_error + ('r sql \<times> 'r sql \<times> 'r sql)" where
  "query_bbox features bbox epsg lod' =
     (case getattr_geometry features lod' of
        Inl e \<Rightarrow> Inl e
      | Inr geom \<Rightarrow>
     (case subscript bbox 0 of Inl e \<Rightarrow> Inl e | Inr xmin \<Rightarrow>
     (case subscript bbox 1 of Inl e \<Rightarrow> Inl e | Inr ymin \<Rightarrow>
     (case subscript bbox 2 of Inl e \<Rightarrow> Inl e | Inr xmax \<Rightarrow>
     (case subscript bbox 3 of Inl e \<Rightarrow> Inl e | Inr ymax \<Rightarrow>
          Inr (SqlPolygonsBBox (field_pk (field features)) geom (tbl features) xmin ymin xmax ymax epsg,
               SqlWhereBBox geom xmin ymin xmax ymax epsg,
               SqlEmpty))))))"

definition query_extent :: "schema_cfg \<Rightarrow> string \<Rightarrow> string \<Rightarrow> py_error + ('r sql \<times> 'r sql \<times> 'r sql)" where
  "query_extent features ewkt lod' =
     (case getattr_geometry features lod' of
        Inl e \<Rightarrow> Inl e
      | Inr geom \<Rightarrow>
          Inr (SqlPolygonsExtent (field_pk (field features)) geom (tbl features) ewkt,
               SqlWhereExtent geom ewkt,
               SqlEmpty))"

definition query_tiles_in_list ::
  "schema_cfg \<Rightarrow> tile_index_cfg \<Rightarrow> string list \<Rightarrow> string \<Rightarrow> py_error + ('r sql \<times> 'r sql \<times> 'r sql)" where
  "query_tiles_in_list features tile_index tile_list lod' =
     (case getattr_geometry features lod' of
        Inl e \<Rightarrow> Inl e
      | Inr geom \<Rightarrow>
          Inr (SqlPolygonsTiles (tbl features) geom (field_pk (field features)),
               SqlWhereTiles geom,
               SqlExtentTiles (tx_geometry tile_index) (tx_schema tile_index, tx_table tile_index)
                 (tx_pk tile_index) tile_list))"

definition query_geometry :: "schema_cfg \<Rightarrow> 'r sql \<Rightarrow> 'r sql \<Rightarrow> string \<Rightarrow> py_error + 'r sql" where
  "query_geometry features polygons_sub extent_sub lod' =
     (case getattr_geometry features lod' of
        Inl e \<Rightarrow> Inl e
      | Inr geom \<Rightarrow> Inr (SqlQueryGeometry extent_sub polygons_sub))"

text \<open>The columns of the attribute projection \<^verbatim>\<open>attr_select\<close> of \<^verbatim>\<open>build_query\<close>.\<close>

definition attr_select :: "string list \<Rightarrow> schema_cfg \<Rightarrow> string list" where
  "attr_select table_fields features =
     (let exclude =
            (if field_exclude (field features) \<noteq> []
             then List.map_filter id (field_exclude (field features))
             else [])
      in filter (\<lambda>col. col \<noteq> field_pk (field features) \<and>
                        col \<notin> set (map snd (field_geometry (field features))) \<and>
                        col \<noteq> field_cityobject_id (field features) \<and>
                        col \<notin> set exclude)
           table_fields)"

text \<open>
  \<^verbatim>\<open>build_query\<close>. The connection is seen through \<^verbatim>\<open>conn.get_fields\<close>, the columns of a
  table; \<^verbatim>\<open>utils.to_ewkt\<close> is a parameter. The result carries the record logged at level
  \<^verbatim>\<open>info\<close>, which names the branch taken.
\<close>

definition build_query ::
  "(sql_table \<Rightarrow> string list) \<Rightarrow> ('p list \<Rightarrow> int \<Rightarrow> string) \<Rightarrow> schema_cfg \<Rightarrow> tile_index_cfg
     \<Rightarrow> string list option \<Rightarrow> 'r list option \<Rightarrow> 'p list option
     \<Rightarrow> log_record list \<times> (py_error + 'r sql)" where
  "build_query get_fields to_ewkt features tile_index tile_list bbox extent =
     (let epsg = 7415;
          table_fields = get_fields (tbl features);
          attr = attr_select table_fields features;
          lods = map fst (field_geometry (field features));
          (logged, subs) =
            (if truthy bbox
             then ([LogInfo ''Exporting with BBOX''],
                   case lods of [] \<Rightarrow> Inl IndexError
                   | lod0 # _ \<Rightarrow> query_bbox features (the bbox) epsg lod0)
             else if truthy tile_list
             then ([LogInfo ''Exporting with a list of tiles''],
                   case lods of [] \<Rightarrow> Inl IndexError
                   | lod0 # _ \<Rightarrow> query_tiles_in_list features tile_index (the tile_list) lod0)
             else if truthy extent
             then ([LogInfo ''Exporting with polygon extent''],
                   let ewkt = to_ewkt (the extent) epsg
                   in case lods of [] \<Rightarrow> Inl IndexError
                      | lod0 # _ \<Rightarrow> query_extent features ewkt lod0)
             else ([LogInfo ''Exporting the whole database''],
                   case lods of [] \<Rightarrow> Inl IndexError
                   | lod0 # _ \<Rightarrow> query_all features lod0))
      in (logged,
          case subs of
            Inl e \<Rightarrow> Inl e
          | Inr (polygons_sub, attr_where, extent_sub) \<Rightarrow>
              (case lods of
                 [] \<Rightarrow> Inl IndexError
               | lod0 # _ \<Rightarrow>
                   (case query_geometry features polygons_sub extent_sub lod0 of
                      Inl e \<Rightarrow> Inl e
                    | Inr qg \<Rightarrow>
                        Inr (SqlExport extent_sub (field_pk (field features))
                               (field_cityobject_id (field features)) attr (tbl features)
                               attr_where qg)))))"

section \<open>Reading a composed query\<close>

text \<open>The four selection modes.\<close>

datatype selection = BoundingBox | TileList | PolygonExtent | WholeTable

text \<open>The precedence of the selection modes, in the words of the specification.\<close>

definition selection_precedence :: "'r list option \<Rightarrow> string list option \<Rightarrow> 'p list option \<Rightarrow> selection" where
  "selection_precedence bbox tile_list extent =
     (if truthy bbox then BoundingBox
      else if truthy tile_list then TileList
      else if truthy extent then PolygonExtent
      else WholeTable)"

text \<open>The message \<^verbatim>\<open>build_query\<close> logs in the branch of each selection mode.\<close>

definition selection_message :: "selection \<Rightarrow> string" where
  "selection_message s =
     (case s of
        BoundingBox \<Rightarrow> ''Exporting with BBOX''
      | TileList \<Rightarrow> ''Exporting with a list of tiles''
      | PolygonExtent \<Rightarrow> ''Exporting with polygon extent''
      | WholeTable \<Rightarrow> ''Exporting the whole database'')"

text \<open>A table and a tile index, for the examples.\<close>

definition features1 :: schema_cfg where
  "features1 = \<lparr>schema_name = ''public'', table_name = ''building'',
      field = \<lparr>field_pk = ''ogc_fid'', field_cityobject_id = ''identificatie'',
               field_geometry = [(''lod1'', ''wkb_geometry'')], field_exclude = [Some ''xml'', None]\<rparr>\<rparr>"

definition tx1 :: tile_index_cfg where
  "tx1 = \<lparr>tx_schema = ''tile_index'', tx_table = ''tile_index_sub'', tx_pk = ''id'', tx_geometry = ''geom''\<rparr>"

text \<open>The attribute projection of a composed export query.\<close>

fun plan_attr :: "'r sql \<Rightarrow> string list" where
  "plan_attr (SqlExport x pk coid attr t w q) = attr"
| "plan_attr q = []"

text \<open>The primary-key column, the city-object-id column and the geometry columns of a table.\<close>

definition key_columns :: "schema_cfg \<Rightarrow> string set" where
  "key_columns features =
     {field_pk (field features), field_cityobject_id (field features)} \<union>
     set (map snd (field_geometry (field features)))"

section \<open>The export scheduler: \<^verbatim>\<open>query\<close>\<close>

text \<open>
  What \<^verbatim>\<open>conn.get_dict\<close> is called with: a composed statement, or the module's function
  \<^verbatim>\<open>query\<close> itself, which is what the name \<^verbatim>\<open>query\<close> denotes inside that function (it
  has no local variable of that name). The database is seen through \<^verbatim>\<open>get_fields\<close> and
  \<^verbatim>\<open>get_dict\<close>; the latter returns a result set (type \<open>'res\<close>) or raises.
\<close>

datatype 'r executed = Statement "'r sql" | FunctionQuery

record ('r, 'res) db =
  get_fields :: "sql_table \<Rightarrow> string list"
  get_dict :: "'r executed \<Rightarrow> py_error + 'res"

text \<open>
  A run of the generator: what it yields, the exception that ends it, and the calls of
  \<^verbatim>\<open>get_dict\<close> it made or scheduled, in order.
\<close>

record ('r, 'res) export_run =
  yielded :: "((string \<times> string) \<times> 'res) list"
  raised_exc :: "py_error option"
  executed :: "'r executed list"

text \<open>\<^verbatim>\<open>except pgError\<close> turns the driver's error into a \<^verbatim>\<open>ClickException\<close>.\<close>

definition except_pgError :: "py_error \<Rightarrow> py_error" where
  "except_pgError e = (if e = PgError then ClickException else e)"

text \<open>The branch \<^verbatim>\<open>threads == 1\<close>, over the tables of all object types in order.\<close>

fun query_single ::
  "('r, 'res) db \<Rightarrow> ('p list \<Rightarrow> int \<Rightarrow> string) \<Rightarrow> tile_index_cfg \<Rightarrow> (string \<times> schema_cfg) list
     \<Rightarrow> string list option \<Rightarrow> 'r list option \<Rightarrow> 'p list option \<Rightarrow> ('r, 'res) export_run" where
  "query_single conn to_ewkt tile_index [] tile_list bbox extent =
     \<lparr>yielded = [], raised_exc = None, executed = []\<rparr>"
| "query_single conn to_ewkt tile_index ((cotype, cotable) # tables) tile_list bbox extent =
     (case snd (build_query (get_fields conn) to_ewkt cotable tile_index tile_list bbox extent) of
        Inl e \<Rightarrow> \<lparr>yielded = [], raised_exc = Some e, executed = []\<rparr>
      | Inr sql_query \<Rightarrow>
          (case get_dict conn FunctionQuery of
             Inl e \<Rightarrow> \<lparr>yielded = [], raised_exc = Some (except_pgError e), executed = [FunctionQuery]\<rparr>
           | Inr resultset \<Rightarrow>
               (let run = query_single conn to_ewkt tile_index tables tile_list bbox extent
                in \<lparr>yielded = ((cotype, table_name cotable), resultset) # yielded run,
                    raised_exc = raised_exc run,
                    executed = FunctionQuery # executed run\<rparr>)))"

text \<open>
  The branch \<^verbatim>\<open>threads > 1\<close>. First every table's statement is composed and submitted
  with its \<^verbatim>\<open>(cotype, tablename)\<close>; a future is modelled by its key and its outcome.
\<close>

fun submit_tables ::
  "('r, 'res) db \<Rightarrow> ('p list \<Rightarrow> int \<Rightarrow> string) \<Rightarrow> tile_index_cfg \<Rightarrow> (string \<times> schema_cfg) list
     \<Rightarrow> string list option \<Rightarrow> 'r list option \<Rightarrow> 'p list option
     \<Rightarrow> ((string \<times> string) \<times> (py_error + 'res)) list \<times> py_error option \<times> 'r executed list" where
  "submit_tables conn to_ewkt tile_index [] tile_list bbox extent = ([], None, [])"
| "submit_tables conn to_ewkt tile_index ((cotype, cotable) # tables) tile_list bbox extent =
     (case snd (build_query (get_fields conn) to_ewkt cotable tile_index tile_list bbox extent) of
        Inl e \<Rightarrow> ([], Some e, [])
      | Inr sql_query \<Rightarrow>
          (let (futures, err, calls) = submit_tables conn to_ewkt tile_index tables tile_list bbox extent
           in (((cotype, table_name cotable), get_dict conn (Statement sql_query)) # futures,
               err,
               Statement sql_query # calls)))"

text \<open>
  Then the futures are drained in the order of completion. The key of the future gives
  \<^verbatim>\<open>cotype\<close> and \<^verbatim>\<open>tablename\<close>; the name yielded is \<^verbatim>\<open>cotable['table']\<close>, where \<^verbatim>\<open>cotable\<close>
  is the variable of the submission loop, bound to the last table since that loop ended.
\<close>

fun drain_futures ::
  "string \<Rightarrow> ((string \<times> string) \<times> (py_error + 'res)) list \<Rightarrow> ((string \<times> string) \<times> 'res) gen" where
  "drain_futures cotable_table [] = ([], None)"
| "drain_futures cotable_table (((cotype, tablename), outcome) # futures) =
     (case outcome of
        Inl e \<Rightarrow> ([], Some (except_pgError e))
      | Inr resultset \<Rightarrow>
          (let (ys, err) = drain_futures cotable_table futures
           in (((cotype, cotable_table), resultset) # ys, err)))"

definition query_pool ::
  "('r, 'res) db \<Rightarrow> ('p list \<Rightarrow> int \<Rightarrow> string)
     \<Rightarrow> (((string \<times> string) \<times> (py_error + 'res)) list \<Rightarrow> ((string \<times> string) \<times> (py_error + 'res)) list)
     \<Rightarrow> tile_index_cfg \<Rightarrow> (string \<times> schema_cfg) list
     \<Rightarrow> string list option \<Rightarrow> 'r list option \<Rightarrow> 'p list option \<Rightarrow> ('r, 'res) export_run" where
  "query_pool conn to_ewkt as_completed tile_index tables tile_list bbox extent =
     (let (futures, err, calls) = submit_tables conn to_ewkt tile_index tables tile_list bbox extent
      in case err of
           Some e \<Rightarrow> \<lparr>yielded = [], raised_exc = Some e, executed = calls\<rparr>
         | None \<Rightarrow>
             (let cotable_table = (if tables = [] then [] else table_name (snd (last tables)));
                  (ys, e) = drain_futures cotable_table (as_completed futures)
              in \<lparr>yielded = ys, raised_exc = e, executed = calls\<rparr>))"

text \<open>
  \<^verbatim>\<open>query\<close>: \<^verbatim>\<open>cityobject_type\<close> maps an object type to its tables; \<^verbatim>\<open>threads\<close> defaults to
  the number of tables; \<^verbatim>\<open>as_completed\<close>, the order in which the futures complete, is a
  parameter.
\<close>

definition query ::
  "('r, 'res) db \<Rightarrow> ('p list \<Rightarrow> int \<Rightarrow> string)
     \<Rightarrow> (((string \<times> string) \<times> (py_error + 'res)) list \<Rightarrow> ((string \<times> string) \<times> (py_error + 'res)) list)
     \<Rightarrow> tile_index_cfg \<Rightarrow> (string \<times> schema_cfg list) list \<Rightarrow> int option
     \<Rightarrow> string list option \<Rightarrow> 'r list option \<Rightarrow> 'p list option \<Rightarrow> ('r, 'res) export_run" where
  "query conn to_ewkt as_completed tile_index cityobject_type threads tile_list bbox extent =
     (let tables = concat (map (\<lambda>(cotype, cotables). map (Pair cotype) cotables) cityobject_type);
          threads' = (case threads of None \<Rightarrow> int (length tables) | Some n \<Rightarrow> n)
      in if threads' = 1
         then query_single conn to_ewkt tile_index tables tile_list bbox extent
         else if threads' > 1
         then query_pool conn to_ewkt as_completed tile_index tables tile_list bbox extent
         else \<lparr>yielded = [], raised_exc = Some ValueError, executed = []\<rparr>)"

text \<open>
  A second table, a database that answers every call of \<^verbatim>\<open>get_dict\<close> with the argument of
  the call, and the export query of a whole table of the examples.
\<close>

definition features2 :: schema_cfg where
  "features2 = features1\<lparr>table_name := ''building_part''\<rparr>"

definition conn1 :: "(int, int executed) db" where
  "conn1 = \<lparr>get_fields = (\<lambda>t. [''ogc_fid'', ''identificatie'', ''wkb_geometry'', ''xml'', ''name'']),
            get_dict = Inr\<rparr>"

definition whole_table :: "string \<Rightarrow> int sql" where
  "whole_table t =
     SqlExport SqlEmpty ''ogc_fid'' ''identificatie'' [''name''] (''public'', t) SqlEmpty
       (SqlQueryGeometry SqlEmpty (SqlPolygonsAll ''ogc_fid'' ''wkb_geometry'' (''public'', t)))"

section \<open>Parsing well-known text: \<^verbatim>\<open>parse_polygonz\<close>\<close>

text \<open>
  The two regular expressions of \<^verbatim>\<open>parse_polygonz\<close> are modelled by the searches they
  perform. \<^verbatim>\<open>$\<close> matches at the end of the string and before a newline that ends the
  string; \<^verbatim>\<open>.\<close> matches every character but the newline.
\<close>

definition newline :: char where
  "newline = CHR 0x0A"

definition at_dollar :: "string \<Rightarrow> bool" where
  "at_dollar rest = (rest = [] \<or> rest = [newline])"

text \<open>
  \<^verbatim>\<open>.*(?!$)\<close> at the start of \<open>rest\<close>: the longest run of characters other than the newline,
  given back one character at a time until the position is not one where \<^verbatim>\<open>$\<close> matches.
\<close>

definition outer_attempt :: "string \<Rightarrow> string option" where
  "outer_attempt rest =
     (let line = takeWhile (\<lambda>c. c \<noteq> newline) rest
      in case List.find (\<lambda>k. \<not> at_dollar (drop k rest)) (rev [0..<Suc (length line)]) of
           None \<Rightarrow> None
         | Some k \<Rightarrow> Some (take k rest))"

text \<open>
  The first match of \<^verbatim>\<open>(?<=POLYGON Z \().*(?!$)\<close>, that is \<^verbatim>\<open>outer[0]\<close>: the search tries
  every position from the left, \<open>seen\<close> being the text already passed.
\<close>

fun outer_search :: "string \<Rightarrow> string \<Rightarrow> string option" where
  "outer_search seen [] =
     (if suffix ''POLYGON Z ('' seen then outer_attempt [] else None)"
| "outer_search seen (c # cs) =
     (case (if suffix ''POLYGON Z ('' seen then outer_attempt (c # cs) else None) of
        Some m \<Rightarrow> Some m
      | None \<Rightarrow> outer_search (seen @ [c]) cs)"

text \<open>
  \<^verbatim>\<open>ring_pat.findall\<close> for \<^verbatim>\<open>\(([^)]+)\)\<close>: the groups of the matches found from the left,
  none overlapping another.
\<close>

function ring_findall :: "string \<Rightarrow> string list" where
  "ring_findall [] = []"
| "ring_findall (c # cs) =
     (if c = CHR ''(''
      then (let body = takeWhile (\<lambda>d. d \<noteq> CHR '')'') cs;
                after = dropWhile (\<lambda>d. d \<noteq> CHR '')'') cs
            in if body \<noteq> [] \<and> after \<noteq> [] then body # ring_findall (tl after)
               else ring_findall cs)
      else ring_findall cs)"
  by pat_completeness auto
termination
proof (relation "measure length")
  show "wf (measure length)" by simp
next
  fix c :: char and cs body after
  assume "after = dropWhile (\<lambda>d. d \<noteq> CHR '')'') cs"
  then have "length (tl after) \<le> length cs"
    using length_dropWhile_le [of "\<lambda>d. d \<noteq> CHR '')''" cs] by simp
  then show "(tl after, c # cs) \<in> measure length" by simp
next
  fix c :: char and cs body after
  show "(cs, c # cs) \<in> measure length" by simp
next
  fix c :: char and cs
  show "(cs, c # cs) \<in> measure length" by simp
qed

text \<open>\<^verbatim>\<open>str.split(sep)\<close> for a separator of one character.\<close>

fun split_on :: "char \<Rightarrow> string \<Rightarrow> string list" where
  "split_on sep [] = [[]]"
| "split_on sep (c # cs) =
     (if c = sep then [] # split_on sep cs
      else (let ws = split_on sep cs in (c # hd ws) # tl ws))"

text \<open>
  \<^verbatim>\<open>str.split()\<close>: the maximal runs of characters that are not whitespace. The whitespace
  characters are those of \<^verbatim>\<open>str.isspace\<close> among the first 256 code points.
\<close>

definition is_space :: "char \<Rightarrow> bool" where
  "is_space c = (c \<in> {CHR 0x09, CHR 0x0A, CHR 0x0B, CHR 0x0C, CHR 0x0D,
                       CHR 0x1C, CHR 0x1D, CHR 0x1E, CHR 0x1F, CHR 0x20, CHR 0x85, CHR 0xA0})"

fun split_words :: "string \<Rightarrow> string \<Rightarrow> string list" where
  "split_words word [] = (if word = [] then [] else [word])"
| "split_words word (c # cs) =
     (if is_space c then (if word = [] then split_words [] cs else word # split_words [] cs)
      else split_words (word @ [c]) cs)"

definition split_ws :: "string \<Rightarrow> string list" where
  "split_ws s = split_words [] s"

text \<open>
  \<^verbatim>\<open>tuple(map(float, pt.split()))\<close>; \<^verbatim>\<open>float\<close> is the parameter \<open>pyfloat\<close>, \<open>None\<close> where it
  raises \<^verbatim>\<open>ValueError\<close>.
\<close>

fun map_float :: "(string \<Rightarrow> 'r option) \<Rightarrow> string list \<Rightarrow> py_error + 'r list" where
  "map_float pyfloat [] = Inr []"
| "map_float pyfloat (t # ts) =
     (case pyfloat t of
        None \<Rightarrow> Inl ValueError
      | Some v \<Rightarrow> (case map_float pyfloat ts of Inl e \<Rightarrow> Inl e | Inr vs \<Rightarrow> Inr (v # vs)))"

fun parse_points :: "(string \<Rightarrow> 'r option) \<Rightarrow> string list \<Rightarrow> py_error + 'r list list" where
  "parse_points pyfloat [] = Inr []"
| "parse_points pyfloat (pt # pts) =
     (case map_float pyfloat (split_ws pt) of
        Inl e \<Rightarrow> Inl e
      | Inr p \<Rightarrow> (case parse_points pyfloat pts of Inl e \<Rightarrow> Inl e | Inr ps \<Rightarrow> Inr (p # ps)))"

text \<open>The loop over the rings: each ring yields its points but the first.\<close>

fun parse_rings :: "(string \<Rightarrow> 'r option) \<Rightarrow> string list \<Rightarrow> 'r list list gen" where
  "parse_rings pyfloat [] = ([], None)"
| "parse_rings pyfloat (ring # rings) =
     (case parse_points pyfloat (split_on CHR '','' ring) of
        Inl e \<Rightarrow> ([], Some e)
      | Inr pts \<Rightarrow>
          (let (ys, raised) = parse_rings pyfloat rings in (drop 1 pts # ys, raised)))"

definition parse_polygonz ::
  "(string \<Rightarrow> 'r option) \<Rightarrow> string \<Rightarrow> log_record list \<times> 'r list list gen" where
  "parse_polygonz pyfloat wkt_polygonz =
     (case outer_search [] wkt_polygonz of
        Some outer0 \<Rightarrow> ([], parse_rings pyfloat (ring_findall outer0))
      | None \<Rightarrow> ([LogError ''Not a POLYGON Z''], ([], None)))"

text \<open>
  Well-formed \<^verbatim>\<open>POLYGON Z\<close> text, as the database prints it: the rings in parentheses,
  separated by commas; the points of a ring separated by commas; the coordinates of a
  point separated by a space. A coordinate is a non-empty token without whitespace, comma
  or parenthesis that \<^verbatim>\<open>float\<close> accepts; a point has a coordinate and a ring has a point.
\<close>

fun join :: "string \<Rightarrow> string list \<Rightarrow> string" where
  "join sep [] = []"
| "join sep [x] = x"
| "join sep (x # y # ys) = x @ sep @ join sep (y # ys)"

definition ring_body :: "string list list \<Rightarrow> string" where
  "ring_body ring = join '','' (map (join '' '') ring)"

definition wkt_ring :: "string list list \<Rightarrow> string" where
  "wkt_ring ring = ''('' @ ring_body ring @ '')''"

definition wkt_polygonz_text :: "string list list list \<Rightarrow> string" where
  "wkt_polygonz_text rings = ''POLYGON Z ('' @ join '','' (map wkt_ring rings) @ '')''"

definition coordinate_token :: "(string \<Rightarrow> 'r option) \<Rightarrow> string \<Rightarrow> bool" where
  "coordinate_token pyfloat tok =
     (tok \<noteq> [] \<and> pyfloat tok \<noteq> None \<and>
      list_all (\<lambda>c. \<not> is_space c \<and> c \<noteq> CHR '','' \<and> c \<noteq> CHR ''('' \<and> c \<noteq> CHR '')'') tok)"

definition wellformed_ring :: "(string \<Rightarrow> 'r option) \<Rightarrow> string list list \<Rightarrow> bool" where
  "wellformed_ring pyfloat ring =
     (ring \<noteq> [] \<and> list_all (\<lambda>pt. pt \<noteq> [] \<and> list_all (coordinate_token pyfloat) pt) ring)"

definition wellformed_rings :: "(string \<Rightarrow> 'r option) \<Rightarrow> string list list list \<Rightarrow> bool" where
  "wellformed_rings pyfloat rings = list_all (wellformed_ring pyfloat) rings"

text \<open>The points of a ring as \<^verbatim>\<open>float\<close> reads them.\<close>

definition raw_ring :: "(string \<Rightarrow> 'r option) \<Rightarrow> string list list \<Rightarrow> 'r list list" where
  "raw_ring pyfloat ring = map (map (\<lambda>tok. the (pyfloat tok))) ring"

section \<open>The vertex stage of \<^verbatim>\<open>query_geometry\<close>\<close>

text \<open>
  A row of the subquery \<^verbatim>\<open>polygons\<close>, one per dumped point: the primary key and the three
  indices of the path of the point. \<^verbatim>\<open>expand_points\<close> keeps the rows whose third index
  is greater than 1 and orders them by key and path.
\<close>

record 'r dumped_point =
  dp_pk :: int
  dp_exterior :: int
  dp_interior :: int
  dp_vertex :: int
  dp_point :: "'r list"

definition expand_points :: "'r dumped_point list \<Rightarrow> 'r dumped_point list" where
  "expand_points polygons =
     sort_key (\<lambda>r. (dp_pk r, dp_exterior r, dp_interior r, dp_vertex r))
       (filter (\<lambda>r. dp_vertex r > 1) polygons)"


text \<open>A character of a coordinate token.\<close>

definition plain :: "char \<Rightarrow> bool" where
  "plain c = (\<not> is_space c \<and> c \<noteq> CHR '','' \<and> c \<noteq> CHR ''('' \<and> c \<noteq> CHR '')'')"

text \<open>A reader of two numerals, for the examples.\<close>

definition float01 :: "string \<Rightarrow> int option" where
  "float01 s = (if s = ''0'' then Some 0 else if s = ''1'' then Some 1 else None)"

section \<open>Morton codes of the grid indexer\<close>

text \<open>
  Modelled from the spec: \<^verbatim>\<open>morton_code\<close> of \<^verbatim>\<open>utils.py\<close>, a file that is not among the
  sources (only its tests are). The spec describes a bit-interleaved Z-order code of two
  non-negative integers, exact up to the coordinate precision used. The precision \<open>w\<close>,
  the number of bits of a coordinate, is a parameter: bit \<open>i\<close> of \<open>x\<close> goes to bit \<open>2i\<close> of
  the code and bit \<open>i\<close> of \<open>y\<close> to bit \<open>2i + 1\<close>, for \<open>i < w\<close>.
\<close>

fun morton_code :: "nat \<Rightarrow> nat \<Rightarrow> nat \<Rightarrow> nat" where
  "morton_code 0 x y = 0"
| "morton_code (Suc w) x y = x mod 2 + 2 * (y mod 2) + 4 * morton_code w (x div 2) (y div 2)"

text \<open>
  Modelled from the spec: \<^verbatim>\<open>rev_morton_code\<close> of \<^verbatim>\<open>utils.py\<close>, the inverse of
  \<^verbatim>\<open>morton_code\<close>: it reads the even bits of the key into \<open>x\<close> and the odd bits into \<open>y\<close>.
\<close>

fun rev_morton_code :: "nat \<Rightarrow> nat \<Rightarrow> nat \<times> nat" where
  "rev_morton_code 0 key = (0, 0)"
| "rev_morton_code (Suc w) key =
     (let (x, y) = rev_morton_code w (key div 4)
      in (key mod 2 + 2 * x, key div 2 mod 2 + 2 * y))"

section \<open>Theorems\<close>


subsection \<open>Evaluating \<^verbatim>\<open>lower\<close>\<close>

lemma lower_Building: "lower ''Building'' = ''building''"
  by (simp add: lower_def lower_char_def)

lemma lower_BuildingPart: "lower ''BuildingPart'' = ''buildingpart''"
  by (simp add: lower_def lower_char_def)

lemma lower_building: "lower ''building'' = ''building''"
  by (simp add: lower_def lower_char_def)

subsection \<open>The geometry kind follows the object type\<close>

lemma record_to_cityobject_type:
  "record_to_cityobject dflt fmt r cotype geomtype l = Inr (i, co) \<Longrightarrow>
     co_type co = Some cotype \<and> map gtype (geometry co) = [geomtype]"
  by (auto simp: record_to_cityobject_def Let_def split: sum.splits if_splits)

lemma table_to_cityobjects_type:
  "(i, co) \<in> set (fst (table_to_cityobjects dflt fmt tabledata cotype geomtype l)) \<Longrightarrow>
     co_type co = Some cotype \<and> map gtype (geometry co) = [geomtype]"
proof (induction tabledata)
  case Nil
  then show ?case by simp
next
  case (Cons r rs)
  then show ?case
    by (auto split: sum.splits prod.splits dest: record_to_cityobject_type)
qed

lemma dbexport_cons_set:
  assumes "(i, co) \<in> set (fst (dbexport_to_cityobjects dflt fmt (((cotype, cotable), tabledata) # items, raised) l))"
  shows "(i, co) \<in> set (fst (table_to_cityobjects dflt fmt tabledata cotype
             (if lower cotype = ''building'' then ''Solid'' else ''MultiSurface'') l))
         \<or> (i, co) \<in> set (fst (dbexport_to_cityobjects dflt fmt (items, raised) l))"
proof -
  define g where "g = (if lower cotype = ''building'' then ''Solid'' else ''MultiSurface'')"
  obtain ys e where t: "table_to_cityobjects dflt fmt tabledata cotype g l = (ys, e)"
    by (cases "table_to_cityobjects dflt fmt tabledata cotype g l")
  obtain zs e' where r: "dbexport_to_cityobjects dflt fmt (items, raised) l = (zs, e')"
    by (cases "dbexport_to_cityobjects dflt fmt (items, raised) l")
  have "fst (dbexport_to_cityobjects dflt fmt (((cotype, cotable), tabledata) # items, raised) l)
          = (case e of Some err \<Rightarrow> ys | None \<Rightarrow> ys @ zs)"
    using t r unfolding g_def by (simp split: option.splits)
  with assms have "(i, co) \<in> set ys \<or> (i, co) \<in> set zs"
    by (cases e) auto
  with t r show ?thesis unfolding g_def by simp
qed

lemma dbexport_items_type:
  "(i, co) \<in> set (fst (dbexport_to_cityobjects dflt fmt (items, raised) l)) \<Longrightarrow>
     \<exists>cotype. co_type co = Some cotype \<and>
       map gtype (geometry co) = [if lower cotype = ''building'' then ''Solid'' else ''MultiSurface'']"
proof (induction items)
  case Nil
  then show ?case by simp
next
  case (Cons item items)
  obtain cotype cotable tabledata where item: "item = ((cotype, cotable), tabledata)"
    by (cases item) auto
  from Cons.prems [unfolded item, THEN dbexport_cons_set] show ?case
  proof
    assume "(i, co) \<in> set (fst (table_to_cityobjects dflt fmt tabledata cotype
             (if lower cotype = ''building'' then ''Solid'' else ''MultiSurface'') l))"
    from table_to_cityobjects_type [OF this] show ?thesis
      by (intro exI [of _ cotype])
  next
    assume "(i, co) \<in> set (fst (dbexport_to_cityobjects dflt fmt (items, raised) l))"
    then show ?thesis by (rule Cons.IH)
  qed
qed

text \<open>
  Claim C7, as the code has it: every object that \<^verbatim>\<open>dbexport_to_cityobjects\<close> yields
  carries its table's object type and exactly one geometry, whose kind is \<^verbatim>\<open>Solid\<close> if
  and only if the type name, lowercased, equals \<^verbatim>\<open>building\<close> (the whole name, not a part
  of it), and \<^verbatim>\<open>MultiSurface\<close> for every other type name.
\<close>

theorem geomtype_by_type_name:
  assumes "(i, co) \<in> set (fst (dbexport_to_cityobjects dflt fmt dbexport l))"
  shows "\<exists>cotype. co_type co = Some cotype \<and>
        map gtype (geometry co) = [if lower cotype = ''building'' then ''Solid'' else ''MultiSurface''] \<and>
        (\<forall>g \<in> set (geometry co). (gtype g = ''Solid'') = (lower cotype = ''building''))"
proof -
  obtain items raised where d: "dbexport = (items, raised)" by (cases dbexport)
  from dbexport_items_type [OF assms [unfolded d]]
  obtain cotype where c: "co_type co = Some cotype \<and>
    map gtype (geometry co) = [if lower cotype = ''building'' then ''Solid'' else ''MultiSurface'']" ..
  have ne: "''Solid'' \<noteq> ''MultiSurface''" by simp
  from c obtain g where g: "geometry co = [g]"
      "gtype g = (if lower cotype = ''building'' then ''Solid'' else ''MultiSurface'')"
    by (cases "geometry co") simp_all
  have "\<forall>g \<in> set (geometry co). (gtype g = ''Solid'') = (lower cotype = ''building'')"
    unfolding g(1) using g(2) ne by (cases "lower cotype = ''building''") simp_all
  with c show ?thesis by (intro exI [of _ cotype] conjI) simp_all
qed

theorem geomtype_by_type_name_witness:
  "(PStr ''a'',
    \<lparr>co_id = PStr ''a'', co_type = Some ''Building'',
     geometry = [\<lparr>gtype = ''Solid'', lod = ''1'', boundaries = PList [PList []]\<rparr>],
     attributes = Map.empty\<rparr>)
     \<in> set (fst (dbexport_to_cityobjects (PNone :: (int, string) pyval) id
          ([((''Building'', ''t''), [[(''coid'', PStr ''a''), (''geom'', PList [])]])], None) ''1''))
   \<and> (\<exists>cotype. Some ''Building'' = Some cotype \<and>
        [''Solid''] = [if lower cotype = ''building'' then ''Solid'' else ''MultiSurface''])"
proof -
  have m: "(PStr ''a'',
    \<lparr>co_id = PStr ''a'', co_type = Some ''Building'',
     geometry = [\<lparr>gtype = ''Solid'', lod = ''1'', boundaries = PList [PList []]\<rparr>],
     attributes = Map.empty\<rparr>)
     \<in> set (fst (dbexport_to_cityobjects (PNone :: (int, string) pyval) id
          ([((''Building'', ''t''), [[(''coid'', PStr ''a''), (''geom'', PList [])]])], None) ''1''))"
    by (simp add: lower_Building record_to_cityobject_def getitem_def)
  from geomtype_by_type_name [OF m] have
    "\<exists>cotype. Some ''Building'' = Some cotype \<and>
        [''Solid''] = [if lower cotype = ''building'' then ''Solid'' else ''MultiSurface'']"
    by simp
  with m show ?thesis by (rule conjI)
qed

text \<open>
  Claim C7 as stated reads the match as a substring match. The type name
  \<^verbatim>\<open>BuildingPart\<close> contains \<^verbatim>\<open>building\<close> whatever the case, and its objects get a
  \<^verbatim>\<open>MultiSurface\<close>.
\<close>

theorem geomtype_substring_counterexample:
  "contains_ci ''building'' ''BuildingPart'' \<and>
   fst (dbexport_to_cityobjects (PNone :: (int, string) pyval) id
          ([((''BuildingPart'', ''t''), [[(''coid'', PStr ''a''), (''geom'', PList [])]])], None) ''1'')
     = [(PStr ''a'',
         \<lparr>co_id = PStr ''a'', co_type = Some ''BuildingPart'',
          geometry = [\<lparr>gtype = ''MultiSurface'', lod = ''1'', boundaries = PList []\<rparr>],
          attributes = Map.empty\<rparr>)]"
proof
  show "contains_ci ''building'' ''BuildingPart''"
    by (simp add: contains_ci_def lower_building lower_BuildingPart)
  show "fst (dbexport_to_cityobjects (PNone :: (int, string) pyval) id
          ([((''BuildingPart'', ''t''), [[(''coid'', PStr ''a''), (''geom'', PList [])]])], None) ''1'')
     = [(PStr ''a'',
         \<lparr>co_id = PStr ''a'', co_type = Some ''BuildingPart'',
          geometry = [\<lparr>gtype = ''MultiSurface'', lod = ''1'', boundaries = PList []\<rparr>],
          attributes = Map.empty\<rparr>)]"
    by (simp add: lower_BuildingPart record_to_cityobject_def getitem_def)
qed

subsection \<open>Resolving a tile list\<close>

lemma lower_ALL: "lower ''ALL'' = ''all''"
  by (simp add: lower_def lower_char_def)

lemma lower_t2: "lower ''t2'' = ''t2''"
  by (simp add: lower_def lower_char_def)

lemma with_list_all:
  "lower t = ''all'' \<Longrightarrow>
     snd (with_list idx (t # ts)) = (if set idx = {} then Inl AttributeError else Inr (remdups idx))"
  by (simp add: with_list_def all_in_index_def)

lemma with_list_all_log:
  "lower t = ''all'' \<Longrightarrow> fst (with_list idx (t # ts)) = [LogInfo ''Getting all tiles from the index.'']"
  by (simp add: with_list_def all_in_index_def)

lemma with_list_ids:
  "lower t \<noteq> ''all'' \<Longrightarrow>
     snd (with_list idx (t # ts)) =
       (if set (t # ts) \<inter> set idx = {} then Inl AttributeError
        else Inr (remdups (filter (\<lambda>x. x \<in> set (t # ts)) idx)))"
  by (auto simp: with_list_def tiles_in_index_def Let_def filter_empty_conv)

lemma with_list_ids_log:
  "lower t \<noteq> ''all'' \<Longrightarrow>
     fst (with_list idx (t # ts)) =
       LogInfo ''Verifying if the provided tiles are in the index.'' #
       (if set (t # ts) - set idx \<noteq> {} then [LogWarningNotInIndex (set (t # ts) - set idx)] else [])"
proof -
  assume a: "lower t \<noteq> ''all''"
  have s: "set (t # ts) - set (remdups (filter (\<lambda>x. x \<in> set (t # ts)) idx)) = set (t # ts) - set idx"
    by auto
  from a have b: "''all'' \<noteq> lower t" by (rule not_sym)
  show ?thesis
    unfolding with_list_def tiles_in_index_def Let_def s
    using b by (simp split: prod.splits)
qed

text \<open>
  Claim C10: \<^verbatim>\<open>with_list\<close> looks for the token \<^verbatim>\<open>all\<close> in the first element only. When
  the first element, lowercased, is \<^verbatim>\<open>all\<close>, the outcome does not depend on the rest of
  the list and the ids returned are those of the whole index. Otherwise the ids returned
  are the supplied ids that are in the index, whatever stands later in the list (the
  token \<^verbatim>\<open>all\<close> included).
\<close>

theorem with_list_first_element_only:
  "(lower t = ''all'' \<longrightarrow>
      with_list idx (t # ts) = with_list idx (t # ts') \<and>
      snd (with_list idx (t # ts)) = (if set idx = {} then Inl AttributeError else Inr (all_in_index idx)) \<and>
      set (all_in_index idx) = set idx) \<and>
   (lower t \<noteq> ''all'' \<longrightarrow>
      snd (with_list idx (t # ts)) =
        (if set (t # ts) \<inter> set idx = {} then Inl AttributeError
         else Inr (snd (tiles_in_index idx (t # ts)))) \<and>
      set (snd (tiles_in_index idx (t # ts))) = set (t # ts) \<inter> set idx)"
proof (intro conjI impI)
  assume a: "lower t = ''all''"
  show "with_list idx (t # ts) = with_list idx (t # ts')"
    using a by (simp add: with_list_def)
  show "snd (with_list idx (t # ts)) = (if set idx = {} then Inl AttributeError else Inr (all_in_index idx))"
    using with_list_all [OF a] by (simp add: all_in_index_def)
next
  show "set (all_in_index idx) = set idx" by (simp add: all_in_index_def)
next
  assume a: "lower t \<noteq> ''all''"
  show "snd (with_list idx (t # ts)) =
        (if set (t # ts) \<inter> set idx = {} then Inl AttributeError
         else Inr (snd (tiles_in_index idx (t # ts))))"
    using with_list_ids [OF a] by (simp add: tiles_in_index_def Let_def)
next
  show "set (snd (tiles_in_index idx (t # ts))) = set (t # ts) \<inter> set idx"
    by (auto simp: tiles_in_index_def Let_def)
qed

theorem with_list_first_element_only_witness:
  "lower ''ALL'' = ''all'' \<and>
   snd (with_list [''t1'', ''t2'', ''t3''] [''ALL'', ''t9'']) = Inr [''t1'', ''t2'', ''t3''] \<and>
   lower ''t2'' \<noteq> ''all'' \<and>
   snd (with_list [''t1'', ''t2'', ''t3''] [''t2'', ''all'', ''zz'']) = Inr [''t2'']"
proof -
  have a: "lower ''ALL'' = ''all''" by (rule lower_ALL)
  have b: "lower ''t2'' \<noteq> ''all''" by (simp add: lower_t2)
  from a with_list_first_element_only [of "''ALL''" "[''t1'', ''t2'', ''t3'']" "[''t9'']" "[''t9'']"]
  have c: "snd (with_list [''t1'', ''t2'', ''t3''] [''ALL'', ''t9'']) = Inr [''t1'', ''t2'', ''t3'']"
    by (simp add: all_in_index_def)
  from b with_list_first_element_only [of "''t2''" "[''t1'', ''t2'', ''t3'']" "[''all'', ''zz'']" "[]"]
  have d: "snd (with_list [''t1'', ''t2'', ''t3''] [''t2'', ''all'', ''zz'']) = Inr [''t2'']"
    by (simp add: tiles_in_index_def)
  from a c b d show ?thesis by (intro conjI)
qed

text \<open>
  Claim C8, for a tile list with at least one element: \<^verbatim>\<open>with_list\<close> raises its
  selection error (an \<^verbatim>\<open>AttributeError\<close>) exactly when the effective tile set is empty
  (the whole index after \<^verbatim>\<open>all\<close>, the supplied ids that are in the index otherwise), it
  raises nothing else, it returns the effective tile set otherwise, and supplied ids that
  are not in the index are logged as skipped.
\<close>

theorem with_list_selection_error:
  "(snd (with_list idx (t # ts)) = Inl AttributeError)
      = ((if lower t = ''all'' then set idx else set (t # ts) \<inter> set idx) = {}) \<and>
   (\<forall>e. snd (with_list idx (t # ts)) = Inl e \<longrightarrow> e = AttributeError) \<and>
   (\<forall>ids. snd (with_list idx (t # ts)) = Inr ids \<longrightarrow>
      set ids = (if lower t = ''all'' then set idx else set (t # ts) \<inter> set idx)) \<and>
   (lower t \<noteq> ''all'' \<longrightarrow> set (t # ts) - set idx \<noteq> {} \<longrightarrow>
      LogWarningNotInIndex (set (t # ts) - set idx) \<in> set (fst (with_list idx (t # ts))))"
proof (cases "lower t = ''all''")
  case True
  from with_list_all [OF True, of idx ts] True show ?thesis by auto
next
  case False
  from with_list_ids [OF False, of idx ts] with_list_ids_log [OF False, of idx ts] False
  show ?thesis by auto
qed

theorem with_list_selection_error_witness:
  "snd (with_list [''t1'', ''t2''] [''t7'', ''t8'']) = Inl AttributeError \<and>
   snd (with_list [] [''all'']) = Inl AttributeError \<and>
   snd (with_list [''t1'', ''t2''] [''t2'', ''t8'']) = Inr [''t2''] \<and>
   LogWarningNotInIndex {''t8''} \<in> set (fst (with_list [''t1'', ''t2''] [''t2'', ''t8'']))"
proof -
  have l: "lower ''t7'' \<noteq> ''all''" "lower ''all'' = ''all''" "lower ''t2'' \<noteq> ''all''"
    by (simp_all add: lower_def lower_char_def)
  from l with_list_selection_error [of "[''t1'', ''t2'']" "''t7''" "[''t8'']"]
  have a: "snd (with_list [''t1'', ''t2''] [''t7'', ''t8'']) = Inl AttributeError" by simp
  from l with_list_selection_error [of "[]" "''all''" "[]"]
  have b: "snd (with_list [] [''all'']) = Inl AttributeError" by simp
  have c: "snd (with_list [''t1'', ''t2''] [''t2'', ''t8'']) = Inr [''t2'']"
    using l by (simp add: with_list_def tiles_in_index_def)
  have s: "set [''t2'', ''t8''] - set [''t1'', ''t2''] = {''t8''}" by auto
  from l with_list_selection_error [of "[''t1'', ''t2'']" "''t2''" "[''t8'']"]
  have d: "LogWarningNotInIndex {''t8''} \<in> set (fst (with_list [''t1'', ''t2''] [''t2'', ''t8'']))"
    unfolding s by simp
  from a b c d show ?thesis by (intro conjI)
qed

text \<open>
  Claim C8 as stated covers the empty tile list: there the effective tile set is empty and
  \<^verbatim>\<open>with_list\<close> fails on \<^verbatim>\<open>tile_list[0]\<close> with an \<^verbatim>\<open>IndexError\<close>, not with its selection
  error.
\<close>

theorem with_list_empty_counterexample:
  "snd (with_list [''t1''] []) = Inl IndexError \<and> snd (tiles_in_index [''t1''] []) = []"
  by (simp add: with_list_def tiles_in_index_def)

subsection \<open>Converting rows to city objects\<close>

lemma parse_attributes_keys:
  "k \<in> {''pk'', ''geom'', ''coid''} \<Longrightarrow> parse_attributes fmt items attrs k = attrs k"
  by (induction fmt items attrs rule: parse_attributes.induct) (auto split: pyval.splits)

lemma parse_attributes_dom:
  "dom (parse_attributes fmt items attrs) \<subseteq> dom attrs \<union> (fst ` set items - {''pk'', ''geom'', ''coid''})"
  by (induction fmt items attrs rule: parse_attributes.induct) (auto split: pyval.splits if_splits)

lemma record_to_cityobject_attributes:
  "record_to_cityobject dflt fmt r cotype geomtype l = Inr (i, co) \<Longrightarrow>
     attributes co = parse_attributes fmt r Map.empty"
  by (auto simp: record_to_cityobject_def Let_def split: sum.splits if_splits)

lemma table_to_cityobjects_attributes:
  "(i, co) \<in> set (fst (table_to_cityobjects dflt fmt tabledata cotype geomtype l)) \<Longrightarrow>
     \<exists>r \<in> set tabledata. attributes co = parse_attributes fmt r Map.empty"
proof (induction tabledata)
  case Nil
  then show ?case by simp
next
  case (Cons r rs)
  then show ?case
    by (auto split: sum.splits prod.splits dest: record_to_cityobject_attributes)
qed

lemma record_to_cityobject_Solid:
  "map_of r ''coid'' = Some c \<Longrightarrow> map_of r ''geom'' = Some g \<Longrightarrow>
   record_to_cityobject dflt fmt r cotype ''Solid'' l =
     Inr (c, \<lparr>co_id = c, co_type = Some cotype,
              geometry = [\<lparr>gtype = ''Solid'', lod = l, boundaries = PList [g]\<rparr>],
              attributes = parse_attributes fmt r Map.empty\<rparr>)"
  by (simp add: record_to_cityobject_def getitem_def)

lemma record_to_cityobject_MultiSurface:
  "map_of r ''coid'' = Some c \<Longrightarrow> map_of r ''geom'' = Some g \<Longrightarrow>
   record_to_cityobject dflt fmt r cotype ''MultiSurface'' l =
     Inr (c, \<lparr>co_id = c, co_type = Some cotype,
              geometry = [\<lparr>gtype = ''MultiSurface'', lod = l, boundaries = g\<rparr>],
              attributes = parse_attributes fmt r Map.empty\<rparr>)"
  by (simp add: record_to_cityobject_def getitem_def)

lemma table_Solid:
  "list_all has_keys tabledata \<Longrightarrow>
   row_boundaries (table_to_cityobjects dflt fmt tabledata cotype ''Solid'' l)
     = map (\<lambda>r. [PList [the (map_of r ''geom'')]]) tabledata \<and>
   snd (table_to_cityobjects dflt fmt tabledata cotype ''Solid'' l) = None"
proof (induction tabledata)
  case Nil
  then show ?case by (simp add: row_boundaries_def)
next
  case (Cons r rs)
  from Cons.prems obtain c g where k: "map_of r ''coid'' = Some c" "map_of r ''geom'' = Some g"
    by (auto simp: has_keys_def)
  from Cons show ?case
    by (cases "table_to_cityobjects dflt fmt rs cotype ''Solid'' l")
       (simp add: row_boundaries_def record_to_cityobject_Solid [OF k] k)
qed

lemma table_MultiSurface:
  "list_all has_keys tabledata \<Longrightarrow>
   row_boundaries (table_to_cityobjects dflt fmt tabledata cotype ''MultiSurface'' l)
     = map (\<lambda>r. [the (map_of r ''geom'')]) tabledata \<and>
   snd (table_to_cityobjects dflt fmt tabledata cotype ''MultiSurface'' l) = None"
proof (induction tabledata)
  case Nil
  then show ?case by (simp add: row_boundaries_def)
next
  case (Cons r rs)
  from Cons.prems obtain c g where k: "map_of r ''coid'' = Some c" "map_of r ''geom'' = Some g"
    by (auto simp: has_keys_def)
  from Cons show ?case
    by (cases "table_to_cityobjects dflt fmt rs cotype ''MultiSurface'' l")
       (simp add: row_boundaries_def record_to_cityobject_MultiSurface [OF k] k)
qed

lemma record_to_cityobject_other:
  "map_of r ''coid'' = Some c \<Longrightarrow> geomtype \<noteq> ''Solid'' \<Longrightarrow> geomtype \<noteq> ''MultiSurface'' \<Longrightarrow>
   record_to_cityobject dflt fmt r cotype geomtype l =
     Inr (c, \<lparr>co_id = c, co_type = Some cotype,
              geometry = [\<lparr>gtype = geomtype, lod = l, boundaries = dflt\<rparr>],
              attributes = parse_attributes fmt r Map.empty\<rparr>)"
  by (simp add: record_to_cityobject_def getitem_def)

lemma table_other:
  assumes "geomtype \<noteq> ''Solid''" "geomtype \<noteq> ''MultiSurface''"
  shows "list_all has_keys tabledata \<Longrightarrow>
   row_boundaries (table_to_cityobjects dflt fmt tabledata cotype geomtype l)
     = map (\<lambda>r. [dflt]) tabledata \<and>
   snd (table_to_cityobjects dflt fmt tabledata cotype geomtype l) = None"
proof (induction tabledata)
  case Nil
  then show ?case by (simp add: row_boundaries_def)
next
  case (Cons r rs)
  from Cons.prems obtain c where k: "map_of r ''coid'' = Some c"
    by (auto simp: has_keys_def)
  from Cons show ?case
    by (cases "table_to_cityobjects dflt fmt rs cotype geomtype l")
       (simp add: row_boundaries_def record_to_cityobject_other [OF k assms])
qed

text \<open>
  Claim C2, as the code has it: for a table whose rows have the columns \<^verbatim>\<open>coid\<close> and
  \<^verbatim>\<open>geom\<close>, the kind \<^verbatim>\<open>Solid\<close> gives every object the row's boundary wrapped in one
  singleton list, the kind \<^verbatim>\<open>MultiSurface\<close> gives it the row's boundary unchanged, and so
  the boundary of a row converted as \<^verbatim>\<open>Solid\<close> is the singleton list of its boundary
  converted as \<^verbatim>\<open>MultiSurface\<close>, one nesting level deeper. For every other kind the
  converter does not assign the row's boundary: every object keeps the boundary the
  constructor of its geometry gave it.
\<close>

theorem solid_wraps_multisurface:
  assumes "list_all has_keys tabledata"
  shows "row_boundaries (table_to_cityobjects dflt fmt tabledata cotype ''Solid'' l)
           = map (\<lambda>r. [PList [the (map_of r ''geom'')]]) tabledata
       \<and> row_boundaries (table_to_cityobjects dflt fmt tabledata cotype ''MultiSurface'' l)
           = map (\<lambda>r. [the (map_of r ''geom'')]) tabledata
       \<and> row_boundaries (table_to_cityobjects dflt fmt tabledata cotype ''Solid'' l)
           = map (map (\<lambda>b. PList [b]))
               (row_boundaries (table_to_cityobjects dflt fmt tabledata cotype ''MultiSurface'' l))
       \<and> map (map nesting) (row_boundaries (table_to_cityobjects dflt fmt tabledata cotype ''Solid'' l))
           = map (map (\<lambda>b. Suc (nesting b)))
               (row_boundaries (table_to_cityobjects dflt fmt tabledata cotype ''MultiSurface'' l))
       \<and> (geomtype \<noteq> ''Solid'' \<and> geomtype \<noteq> ''MultiSurface'' \<longrightarrow>
            row_boundaries (table_to_cityobjects dflt fmt tabledata cotype geomtype l)
              = map (\<lambda>r. [dflt]) tabledata)"
proof -
  note s = table_Solid [OF assms, of dflt fmt cotype l]
  note m = table_MultiSurface [OF assms, of dflt fmt cotype l]
  have four: "row_boundaries (table_to_cityobjects dflt fmt tabledata cotype ''Solid'' l)
           = map (\<lambda>r. [PList [the (map_of r ''geom'')]]) tabledata
       \<and> row_boundaries (table_to_cityobjects dflt fmt tabledata cotype ''MultiSurface'' l)
           = map (\<lambda>r. [the (map_of r ''geom'')]) tabledata
       \<and> row_boundaries (table_to_cityobjects dflt fmt tabledata cotype ''Solid'' l)
           = map (map (\<lambda>b. PList [b]))
               (row_boundaries (table_to_cityobjects dflt fmt tabledata cotype ''MultiSurface'' l))
       \<and> map (map nesting) (row_boundaries (table_to_cityobjects dflt fmt tabledata cotype ''Solid'' l))
           = map (map (\<lambda>b. Suc (nesting b)))
               (row_boundaries (table_to_cityobjects dflt fmt tabledata cotype ''MultiSurface'' l))"
    using s m by (simp add: comp_def)
  have other: "geomtype \<noteq> ''Solid'' \<and> geomtype \<noteq> ''MultiSurface'' \<longrightarrow>
            row_boundaries (table_to_cityobjects dflt fmt tabledata cotype geomtype l)
              = map (\<lambda>r. [dflt]) tabledata"
  proof
    assume g: "geomtype \<noteq> ''Solid'' \<and> geomtype \<noteq> ''MultiSurface''"
    from g have g1: "geomtype \<noteq> ''Solid''" and g2: "geomtype \<noteq> ''MultiSurface''" by simp_all
    from table_other [OF g1 g2 assms, of dflt fmt cotype l]
    show "row_boundaries (table_to_cityobjects dflt fmt tabledata cotype geomtype l)
              = map (\<lambda>r. [dflt]) tabledata" by (rule conjunct1)
  qed
  from four other show ?thesis by simp
qed

theorem solid_wraps_multisurface_witness:
  "list_all has_keys
     [[(''coid'', PStr ''a''), (''geom'', PList [PList [PInt 1 :: (int, string) pyval]]), (''pk'', PInt 7)]] \<and>
   row_boundaries (table_to_cityobjects (PList [] :: (int, string) pyval) id
      [[(''coid'', PStr ''a''), (''geom'', PList [PList [PInt 1]]), (''pk'', PInt 7)]]
      ''Building'' ''Solid'' ''1'') = [[PList [PList [PList [PInt 1]]]]] \<and>
   row_boundaries (table_to_cityobjects (PList [] :: (int, string) pyval) id
      [[(''coid'', PStr ''a''), (''geom'', PList [PList [PInt 1]]), (''pk'', PInt 7)]]
      ''Building'' ''MultiSurface'' ''1'') = [[PList [PList [PInt 1]]]] \<and>
   ''CompositeSurface'' \<noteq> ''Solid'' \<and> ''CompositeSurface'' \<noteq> ''MultiSurface'' \<and>
   row_boundaries (table_to_cityobjects (PList [] :: (int, string) pyval) id
      [[(''coid'', PStr ''a''), (''geom'', PList [PList [PInt 1]]), (''pk'', PInt 7)]]
      ''Building'' ''CompositeSurface'' ''1'') = [[PList []]]"
proof -
  have h: "list_all has_keys [[(''coid'', PStr ''a''), (''geom'', PList [PList [PInt 1 :: (int, string) pyval]]), (''pk'', PInt 7)]]"
    by (simp add: has_keys_def)
  have k: "''CompositeSurface'' \<noteq> ''Solid''" "''CompositeSurface'' \<noteq> ''MultiSurface''" by simp_all
  from solid_wraps_multisurface [OF h, where dflt = "PList []" and fmt = id and cotype = "''Building''"
      and l = "''1''" and geomtype = "''CompositeSurface''"] h k
  show ?thesis by (simp del: table_to_cityobjects.simps)
qed

text \<open>
  Claim C2 as stated speaks of every kind other than \<^verbatim>\<open>Solid\<close>. The converter assigns the
  row's boundary under \<^verbatim>\<open>elif geomtype == 'MultiSurface'\<close> only: for another kind, here
  \<^verbatim>\<open>CompositeSurface\<close>, the geometry keeps the boundary its constructor gave it (here the
  empty list) and not the row's.
\<close>

theorem other_kind_counterexample:
  "fst (table_to_cityobjects (PList [] :: (int, string) pyval) id
      [[(''coid'', PStr ''a''), (''geom'', PList [PList [PInt 1]])]]
      ''Road'' ''CompositeSurface'' ''1'')
    = [(PStr ''a'',
        \<lparr>co_id = PStr ''a'', co_type = Some ''Road'',
         geometry = [\<lparr>gtype = ''CompositeSurface'', lod = ''1'', boundaries = PList []\<rparr>],
         attributes = Map.empty\<rparr>)]
   \<and> (PList [] :: (int, string) pyval) \<noteq> PList [PList [PInt 1]]"
  by (simp add: record_to_cityobject_def getitem_def)

lemma attributes_exclude_keys:
  assumes "(i, co) \<in> set (fst (table_to_cityobjects dflt fmt tabledata cotype geomtype l))"
  shows "attributes co ''pk'' = None \<and> attributes co ''geom'' = None \<and> attributes co ''coid'' = None"
proof -
  from table_to_cityobjects_attributes [OF assms]
  obtain r where "attributes co = parse_attributes fmt r Map.empty" by auto
  then show ?thesis by (simp add: parse_attributes_keys)
qed

subsection \<open>The branch \<^verbatim>\<open>build_query\<close> takes\<close>

lemma build_query_logged:
  "fst (build_query gf ew features tx tile_list bbox extent)
     = [LogInfo (selection_message (selection_precedence bbox tile_list extent))]"
  by (simp add: build_query_def selection_precedence_def selection_message_def Let_def split: prod.splits)

lemma getattr_first:
  "field_geometry (field features) = (l0, g0) # gs \<Longrightarrow> getattr_geometry features l0 = Inr g0"
  by (simp add: getattr_geometry_def)

lemma subscript_ok: "i < length xs \<Longrightarrow> subscript xs i = Inr (xs ! i)"
  by (simp add: subscript_def)

lemma query_bbox_ok:
  "getattr_geometry features l0 = Inr g0 \<Longrightarrow> 4 \<le> length bbox \<Longrightarrow>
   query_bbox features bbox epsg l0 =
     Inr (SqlPolygonsBBox (field_pk (field features)) g0 (tbl features)
            (bbox ! 0) (bbox ! 1) (bbox ! 2) (bbox ! 3) epsg,
          SqlWhereBBox g0 (bbox ! 0) (bbox ! 1) (bbox ! 2) (bbox ! 3) epsg,
          SqlEmpty)"
  by (auto simp: query_bbox_def subscript_def)

lemma build_query_bbox:
  assumes g: "field_geometry (field features) = (l0, g0) # gs"
    and b: "truthy bbox" and n: "4 \<le> length (the bbox)"
  shows "snd (build_query gf ew features tx tile_list bbox extent) =
     Inr (SqlExport SqlEmpty (field_pk (field features)) (field_cityobject_id (field features))
            (attr_select (gf (tbl features)) features) (tbl features)
            (SqlWhereBBox g0 (the bbox ! 0) (the bbox ! 1) (the bbox ! 2) (the bbox ! 3) 7415)
            (SqlQueryGeometry SqlEmpty
               (SqlPolygonsBBox (field_pk (field features)) g0 (tbl features)
                  (the bbox ! 0) (the bbox ! 1) (the bbox ! 2) (the bbox ! 3) 7415)))"
  by (simp add: build_query_def Let_def b g query_bbox_ok [OF getattr_first [OF g] n]
        query_geometry_def getattr_first [OF g])

lemma build_query_tiles:
  assumes g: "field_geometry (field features) = (l0, g0) # gs"
    and b: "\<not> truthy bbox" and t: "truthy tile_list"
  shows "snd (build_query gf ew features tx tile_list bbox extent) =
     Inr (SqlExport
            (SqlExtentTiles (tx_geometry tx) (tx_schema tx, tx_table tx) (tx_pk tx) (the tile_list))
            (field_pk (field features)) (field_cityobject_id (field features))
            (attr_select (gf (tbl features)) features) (tbl features)
            (SqlWhereTiles g0)
            (SqlQueryGeometry
               (SqlExtentTiles (tx_geometry tx) (tx_schema tx, tx_table tx) (tx_pk tx) (the tile_list))
               (SqlPolygonsTiles (tbl features) g0 (field_pk (field features)))))"
  by (simp add: build_query_def Let_def b t g query_tiles_in_list_def query_geometry_def getattr_first [OF g])

lemma build_query_extent:
  assumes g: "field_geometry (field features) = (l0, g0) # gs"
    and b: "\<not> truthy bbox" and t: "\<not> truthy tile_list" and x: "truthy extent"
  shows "snd (build_query gf ew features tx tile_list bbox extent) =
     Inr (SqlExport SqlEmpty
            (field_pk (field features)) (field_cityobject_id (field features))
            (attr_select (gf (tbl features)) features) (tbl features)
            (SqlWhereExtent g0 (ew (the extent) 7415))
            (SqlQueryGeometry SqlEmpty
               (SqlPolygonsExtent (field_pk (field features)) g0 (tbl features) (ew (the extent) 7415))))"
  by (simp add: build_query_def Let_def b t x g query_extent_def query_geometry_def getattr_first [OF g])

lemma build_query_all:
  assumes g: "field_geometry (field features) = (l0, g0) # gs"
    and b: "\<not> truthy bbox" and t: "\<not> truthy tile_list" and x: "\<not> truthy extent"
  shows "snd (build_query gf ew features tx tile_list bbox extent) =
     Inr (SqlExport SqlEmpty
            (field_pk (field features)) (field_cityobject_id (field features))
            (attr_select (gf (tbl features)) features) (tbl features)
            SqlEmpty
            (SqlQueryGeometry SqlEmpty
               (SqlPolygonsAll (field_pk (field features)) g0 (tbl features))))"
  by (simp add: build_query_def Let_def b t x g query_all_def query_geometry_def getattr_first [OF g])

lemma build_query_bbox_only:
  "truthy bbox \<Longrightarrow>
     build_query gf ew features tx tile_list bbox extent = build_query gf ew features tx None bbox None"
  by (simp add: build_query_def)

lemma build_query_tiles_only:
  "\<not> truthy bbox \<Longrightarrow> truthy tile_list \<Longrightarrow>
     build_query gf ew features tx tile_list bbox extent = build_query gf ew features tx tile_list None None"
  by (simp add: build_query_def truthy_def)

text \<open>
  Claim C3: every call of \<^verbatim>\<open>build_query\<close> logs the message of exactly one branch, the
  one of the first selection parameter that is supplied (neither \<^verbatim>\<open>None\<close> nor empty) in
  the order bounding box, tile list, polygon extent, and the whole table when none is.
  With a bounding box supplied, the tile list and the polygon extent have no effect on
  the result; with a tile list and no bounding box, the polygon extent has none. For a
  table whose first geometry column is \<open>g0\<close>, the query composed is the one of that branch,
  in all its three fragments: with a bounding box of four coordinates the extent is empty
  and the polygons and the attribute filter intersect the envelope of the box, whatever
  the tile list and the polygon extent are; with a tile list and no bounding box the
  extent is the union of the listed tiles and both intersect it; with a polygon extent
  only both intersect the polygon as \<^verbatim>\<open>to_ewkt\<close> writes it; with none, the extent and the
  attribute filter are empty and every geometry of the table is dumped.
\<close>

theorem build_query_precedence:
  "fst (build_query gf ew features tx tile_list bbox extent)
           = [LogInfo (selection_message (selection_precedence bbox tile_list extent))]
   \<and> (truthy bbox \<longrightarrow>
         build_query gf ew features tx tile_list bbox extent = build_query gf ew features tx None bbox None)
   \<and> (\<not> truthy bbox \<and> truthy tile_list \<longrightarrow>
         build_query gf ew features tx tile_list bbox extent
           = build_query gf ew features tx tile_list None None)
   \<and> (field_geometry (field features) = (l0, g0) # gs \<and> truthy bbox \<and> 4 \<le> length (the bbox) \<longrightarrow>
         snd (build_query gf ew features tx tile_list bbox extent) =
           Inr (SqlExport SqlEmpty (field_pk (field features)) (field_cityobject_id (field features))
                  (attr_select (gf (tbl features)) features) (tbl features)
                  (SqlWhereBBox g0 (the bbox ! 0) (the bbox ! 1) (the bbox ! 2) (the bbox ! 3) 7415)
                  (SqlQueryGeometry SqlEmpty
                     (SqlPolygonsBBox (field_pk (field features)) g0 (tbl features)
                        (the bbox ! 0) (the bbox ! 1) (the bbox ! 2) (the bbox ! 3) 7415))))
   \<and> (field_geometry (field features) = (l0, g0) # gs \<and> \<not> truthy bbox \<and> truthy tile_list \<longrightarrow>
         snd (build_query gf ew features tx tile_list bbox extent) =
           Inr (SqlExport
                  (SqlExtentTiles (tx_geometry tx) (tx_schema tx, tx_table tx) (tx_pk tx) (the tile_list))
                  (field_pk (field features)) (field_cityobject_id (field features))
                  (attr_select (gf (tbl features)) features) (tbl features)
                  (SqlWhereTiles g0)
                  (SqlQueryGeometry
                     (SqlExtentTiles (tx_geometry tx) (tx_schema tx, tx_table tx) (tx_pk tx) (the tile_list))
                     (SqlPolygonsTiles (tbl features) g0 (field_pk (field features))))))
   \<and> (field_geometry (field features) = (l0, g0) # gs \<and> \<not> truthy bbox \<and> \<not> truthy tile_list \<and>
        truthy extent \<longrightarrow>
         snd (build_query gf ew features tx tile_list bbox extent) =
           Inr (SqlExport SqlEmpty
                  (field_pk (field features)) (field_cityobject_id (field features))
                  (attr_select (gf (tbl features)) features) (tbl features)
                  (SqlWhereExtent g0 (ew (the extent) 7415))
                  (SqlQueryGeometry SqlEmpty
                     (SqlPolygonsExtent (field_pk (field features)) g0 (tbl features)
                        (ew (the extent) 7415)))))
   \<and> (field_geometry (field features) = (l0, g0) # gs \<and> \<not> truthy bbox \<and> \<not> truthy tile_list \<and>
        \<not> truthy extent \<longrightarrow>
         snd (build_query gf ew features tx tile_list bbox extent) =
           Inr (SqlExport SqlEmpty
                  (field_pk (field features)) (field_cityobject_id (field features))
                  (attr_select (gf (tbl features)) features) (tbl features)
                  SqlEmpty
                  (SqlQueryGeometry SqlEmpty
                     (SqlPolygonsAll (field_pk (field features)) g0 (tbl features)))))"
proof (intro conjI impI)
  show "fst (build_query gf ew features tx tile_list bbox extent)
           = [LogInfo (selection_message (selection_precedence bbox tile_list extent))]"
    by (rule build_query_logged)
next
  assume "truthy bbox"
  then show "build_query gf ew features tx tile_list bbox extent = build_query gf ew features tx None bbox None"
    by (rule build_query_bbox_only)
next
  assume "\<not> truthy bbox \<and> truthy tile_list"
  then show "build_query gf ew features tx tile_list bbox extent
           = build_query gf ew features tx tile_list None None"
    by (simp add: build_query_tiles_only)
next
  assume a: "field_geometry (field features) = (l0, g0) # gs \<and> truthy bbox \<and> 4 \<le> length (the bbox)"
  then have g: "field_geometry (field features) = (l0, g0) # gs" and b: "truthy bbox"
    and n: "4 \<le> length (the bbox)" by simp_all
  show "snd (build_query gf ew features tx tile_list bbox extent) =
           Inr (SqlExport SqlEmpty (field_pk (field features)) (field_cityobject_id (field features))
                  (attr_select (gf (tbl features)) features) (tbl features)
                  (SqlWhereBBox g0 (the bbox ! 0) (the bbox ! 1) (the bbox ! 2) (the bbox ! 3) 7415)
                  (SqlQueryGeometry SqlEmpty
                     (SqlPolygonsBBox (field_pk (field features)) g0 (tbl features)
                        (the bbox ! 0) (the bbox ! 1) (the bbox ! 2) (the bbox ! 3) 7415)))"
    by (rule build_query_bbox [OF g b n])
next
  assume a: "field_geometry (field features) = (l0, g0) # gs \<and> \<not> truthy bbox \<and> truthy tile_list"
  then have g: "field_geometry (field features) = (l0, g0) # gs" and b: "\<not> truthy bbox"
    and t: "truthy tile_list" by simp_all
  show "snd (build_query gf ew features tx tile_list bbox extent) =
           Inr (SqlExport
                  (SqlExtentTiles (tx_geometry tx) (tx_schema tx, tx_table tx) (tx_pk tx) (the tile_list))
                  (field_pk (field features)) (field_cityobject_id (field features))
                  (attr_select (gf (tbl features)) features) (tbl features)
                  (SqlWhereTiles g0)
                  (SqlQueryGeometry
                     (SqlExtentTiles (tx_geometry tx) (tx_schema tx, tx_table tx) (tx_pk tx) (the tile_list))
                     (SqlPolygonsTiles (tbl features) g0 (field_pk (field features)))))"
    by (rule build_query_tiles [OF g b t])
next
  assume a: "field_geometry (field features) = (l0, g0) # gs \<and> \<not> truthy bbox \<and> \<not> truthy tile_list \<and>
        truthy extent"
  then have g: "field_geometry (field features) = (l0, g0) # gs" and b: "\<not> truthy bbox"
    and t: "\<not> truthy tile_list" and x: "truthy extent" by simp_all
  show "snd (build_query gf ew features tx tile_list bbox extent) =
           Inr (SqlExport SqlEmpty
                  (field_pk (field features)) (field_cityobject_id (field features))
                  (attr_select (gf (tbl features)) features) (tbl features)
                  (SqlWhereExtent g0 (ew (the extent) 7415))
                  (SqlQueryGeometry SqlEmpty
                     (SqlPolygonsExtent (field_pk (field features)) g0 (tbl features)
                        (ew (the extent) 7415))))"
    by (rule build_query_extent [OF g b t x])
next
  assume a: "field_geometry (field features) = (l0, g0) # gs \<and> \<not> truthy bbox \<and> \<not> truthy tile_list \<and>
        \<not> truthy extent"
  then have g: "field_geometry (field features) = (l0, g0) # gs" and b: "\<not> truthy bbox"
    and t: "\<not> truthy tile_list" and x: "\<not> truthy extent" by simp_all
  show "snd (build_query gf ew features tx tile_list bbox extent) =
           Inr (SqlExport SqlEmpty
                  (field_pk (field features)) (field_cityobject_id (field features))
                  (attr_select (gf (tbl features)) features) (tbl features)
                  SqlEmpty
                  (SqlQueryGeometry SqlEmpty
                     (SqlPolygonsAll (field_pk (field features)) g0 (tbl features))))"
    by (rule build_query_all [OF g b t x])
qed

theorem build_query_precedence_witness:
  "field_geometry (field features1) = (''lod1'', ''wkb_geometry'') # [] \<and>
   truthy (Some [1, 2, 3, 4 :: int]) \<and> truthy (Some [''t1'']) \<and> 4 \<le> length (the (Some [1, 2, 3, 4 :: int])) \<and>
   build_query (\<lambda>t. [''ogc_fid'', ''identificatie'', ''wkb_geometry'', ''xml'', ''name''])
        (\<lambda>p s. ''ewkt'') features1 tx1 (Some [''t1'']) (Some [1, 2, 3, 4 :: int]) (None :: unit list option)
     = ([LogInfo ''Exporting with BBOX''],
        Inr (SqlExport SqlEmpty ''ogc_fid'' ''identificatie'' [''name''] (''public'', ''building'')
               (SqlWhereBBox ''wkb_geometry'' 1 2 3 4 7415)
               (SqlQueryGeometry SqlEmpty
                  (SqlPolygonsBBox ''ogc_fid'' ''wkb_geometry'' (''public'', ''building'') 1 2 3 4 7415))))"
proof -
  let ?gf = "\<lambda>t :: sql_table. [''ogc_fid'', ''identificatie'', ''wkb_geometry'', ''xml'', ''name'']"
  let ?ew = "\<lambda>(p :: unit list) (s :: int). ''ewkt''"
  have a: "field_geometry (field features1) = (''lod1'', ''wkb_geometry'') # []" by (simp add: features1_def)
  have b: "truthy (Some [1, 2, 3, 4 :: int])" "truthy (Some [''t1''])" by (simp_all add: truthy_def)
  have n: "4 \<le> length (the (Some [1, 2, 3, 4 :: int]))" by simp
  have at: "attr_select (?gf (tbl features1)) features1 = [''name'']"
    by (simp add: attr_select_def features1_def List.map_filter_simps)
  have f: "field_pk (field features1) = ''ogc_fid''" "field_cityobject_id (field features1) = ''identificatie''"
    "tbl features1 = (''public'', ''building'')"
    by (simp_all add: features1_def tbl_def)
  have m: "selection_message (selection_precedence (Some [1, 2, 3, 4 :: int]) (Some [''t1'']) (None :: unit list option))
             = ''Exporting with BBOX''"
    using b by (simp add: selection_precedence_def selection_message_def)
  note p = build_query_precedence [where gf = ?gf and ew = ?ew and features = features1 and tx = tx1
      and tile_list = "Some [''t1'']" and bbox = "Some [1, 2, 3, 4 :: int]" and extent = "None :: unit list option"
      and ?l0.0 = "''lod1''" and ?g0.0 = "''wkb_geometry''" and gs = "[]"]
  from p [THEN conjunct1]
  have lg: "fst (build_query ?gf ?ew features1 tx1 (Some [''t1'']) (Some [1, 2, 3, 4 :: int]) (None :: unit list option))
              = [LogInfo ''Exporting with BBOX'']"
    unfolding m .
  from a b(1) n have h: "field_geometry (field features1) = (''lod1'', ''wkb_geometry'') # [] \<and>
      truthy (Some [1, 2, 3, 4 :: int]) \<and> 4 \<le> length (the (Some [1, 2, 3, 4 :: int]))" by (intro conjI)
  from p [THEN conjunct2, THEN conjunct2, THEN conjunct2, THEN conjunct1, THEN mp, OF h]
  have pl: "snd (build_query ?gf ?ew features1 tx1 (Some [''t1'']) (Some [1, 2, 3, 4 :: int]) (None :: unit list option))
     = Inr (SqlExport SqlEmpty ''ogc_fid'' ''identificatie'' [''name''] (''public'', ''building'')
               (SqlWhereBBox ''wkb_geometry'' 1 2 3 4 7415)
               (SqlQueryGeometry SqlEmpty
                  (SqlPolygonsBBox ''ogc_fid'' ''wkb_geometry'' (''public'', ''building'') 1 2 3 4 7415)))"
    unfolding at f by simp
  from lg pl have "build_query ?gf ?ew features1 tx1 (Some [''t1'']) (Some [1, 2, 3, 4 :: int]) (None :: unit list option)
     = ([LogInfo ''Exporting with BBOX''],
        Inr (SqlExport SqlEmpty ''ogc_fid'' ''identificatie'' [''name''] (''public'', ''building'')
               (SqlWhereBBox ''wkb_geometry'' 1 2 3 4 7415)
               (SqlQueryGeometry SqlEmpty
                  (SqlPolygonsBBox ''ogc_fid'' ''wkb_geometry'' (''public'', ''building'') 1 2 3 4 7415))))"
    by (simp add: prod_eq_iff)
  with a b n show ?thesis by (intro conjI)
qed

subsection \<open>What reaches the attributes of a city object\<close>

lemma attr_select_disjoint: "set (attr_select table_fields features) \<inter> key_columns features = {}"
  by (auto simp: attr_select_def key_columns_def Let_def)

lemma build_query_plan_attr:
  "snd (build_query gf ew features tx tile_list bbox extent) = Inr plan \<Longrightarrow>
     plan_attr plan = attr_select (gf (tbl features)) features"
  by (auto simp: build_query_def Let_def split: sum.splits list.splits prod.splits if_splits)

lemma subset_diff_union: "A \<subseteq> K \<union> P \<Longrightarrow> D \<subseteq> A - K \<Longrightarrow> D \<subseteq> P"
  by blast

lemma disjoint_subset: "D \<subseteq> P \<Longrightarrow> P \<inter> C = {} \<Longrightarrow> D \<inter> C = {}"
  by blast

text \<open>
  Claim C6: the attribute projection of \<^verbatim>\<open>build_query\<close> has none of the primary-key
  column, the city-object-id column and the geometry columns, in every composed query;
  \<^verbatim>\<open>table_to_cityobjects\<close> never copies the keys \<^verbatim>\<open>pk\<close>, \<^verbatim>\<open>geom\<close> and \<^verbatim>\<open>coid\<close> into
  the attributes of an object; and so, for rows whose columns are those three keys and
  the columns of the projection, no attribute of a converted object is named by the
  primary-key column, the city-object-id column or a geometry column.
\<close>

theorem attributes_never_key_columns:
  "set (attr_select table_fields features) \<inter> key_columns features = {}
   \<and> (\<forall>plan. snd (build_query gf ew features tx tile_list bbox extent) = Inr plan \<longrightarrow>
          set (plan_attr plan) \<inter> key_columns features = {})
   \<and> (\<forall>i co. (i, co) \<in> set (fst (table_to_cityobjects dflt fmt tabledata cotype geomtype l)) \<longrightarrow>
          attributes co ''pk'' = None \<and> attributes co ''geom'' = None \<and> attributes co ''coid'' = None)
   \<and> (\<forall>plan i co.
          snd (build_query gf ew features tx tile_list bbox extent) = Inr plan \<and>
          (\<forall>r \<in> set tabledata. fst ` set r \<subseteq> {''pk'', ''geom'', ''coid''} \<union> set (plan_attr plan)) \<and>
          (i, co) \<in> set (fst (table_to_cityobjects dflt fmt tabledata cotype geomtype l)) \<longrightarrow>
          dom (attributes co) \<inter> key_columns features = {})"
proof (intro conjI allI impI)
  show "set (attr_select table_fields features) \<inter> key_columns features = {}"
    by (rule attr_select_disjoint)
next
  fix plan
  assume "snd (build_query gf ew features tx tile_list bbox extent) = Inr plan"
  from build_query_plan_attr [OF this] show "set (plan_attr plan) \<inter> key_columns features = {}"
    by (simp add: attr_select_disjoint)
next
  fix i co
  assume m: "(i, co) \<in> set (fst (table_to_cityobjects dflt fmt tabledata cotype geomtype l))"
  from attributes_exclude_keys [OF m]
  show "attributes co ''pk'' = None" "attributes co ''geom'' = None" "attributes co ''coid'' = None"
    by simp_all
next
  fix plan i co
  assume a: "snd (build_query gf ew features tx tile_list bbox extent) = Inr plan \<and>
          (\<forall>r \<in> set tabledata. fst ` set r \<subseteq> {''pk'', ''geom'', ''coid''} \<union> set (plan_attr plan)) \<and>
          (i, co) \<in> set (fst (table_to_cityobjects dflt fmt tabledata cotype geomtype l))"
  then have pa: "set (plan_attr plan) \<inter> key_columns features = {}"
    using build_query_plan_attr [of gf ew features tx tile_list bbox extent plan]
    by (simp add: attr_select_disjoint)
  from a table_to_cityobjects_attributes [of i co dflt fmt tabledata cotype geomtype l]
  obtain r where r: "r \<in> set tabledata" "attributes co = parse_attributes fmt r Map.empty"
    by auto
  from a r(1) have k: "fst ` set r \<subseteq> {''pk'', ''geom'', ''coid''} \<union> set (plan_attr plan)"
    by simp
  have "dom (attributes co) \<subseteq> fst ` set r - {''pk'', ''geom'', ''coid''}"
    unfolding r(2) using parse_attributes_dom [of fmt r Map.empty] by simp
  from subset_diff_union [OF k this] have "dom (attributes co) \<subseteq> set (plan_attr plan)" .
  from disjoint_subset [OF this pa] show "dom (attributes co) \<inter> key_columns features = {}" .
qed

theorem attributes_never_key_columns_witness:
  "snd (build_query (\<lambda>t. [''ogc_fid'', ''identificatie'', ''wkb_geometry'', ''xml'', ''name''])
          (\<lambda>p s. ''ewkt'') features1 tx1 None (None :: int list option) (None :: unit list option))
     = Inr (SqlExport SqlEmpty ''ogc_fid'' ''identificatie'' [''name''] (''public'', ''building'') SqlEmpty
              (SqlQueryGeometry SqlEmpty (SqlPolygonsAll ''ogc_fid'' ''wkb_geometry'' (''public'', ''building''))))
   \<and> (PStr ''a'',
       \<lparr>co_id = PStr ''a'', co_type = Some ''Building'',
        geometry = [\<lparr>gtype = ''Solid'', lod = ''1'', boundaries = PList [PList []]\<rparr>],
        attributes = [''name'' \<mapsto> PStr ''x'']\<rparr>)
       \<in> set (fst (table_to_cityobjects (PList [] :: (int, string) pyval) id
              [[(''pk'', PInt 1), (''geom'', PList []), (''coid'', PStr ''a''), (''name'', PStr ''x'')]]
              ''Building'' ''Solid'' ''1''))
   \<and> dom [''name'' \<mapsto> (PStr ''x'' :: (int, string) pyval)] \<inter> key_columns features1 = {}
   \<and> [''name'' \<mapsto> (PStr ''x'' :: (int, string) pyval)] ''pk'' = None"
proof -
  let ?gf = "\<lambda>t :: sql_table. [''ogc_fid'', ''identificatie'', ''wkb_geometry'', ''xml'', ''name'']"
  let ?ew = "\<lambda>(p :: unit list) (s :: int). ''ewkt''"
  let ?plan = "SqlExport SqlEmpty ''ogc_fid'' ''identificatie'' [''name''] (''public'', ''building'') SqlEmpty
              (SqlQueryGeometry SqlEmpty (SqlPolygonsAll ''ogc_fid'' ''wkb_geometry'' (''public'', ''building''))) :: int sql"
  let ?rows = "[[(''pk'', PInt 1), (''geom'', PList []), (''coid'', PStr ''a''), (''name'', PStr ''x'')]] :: (int, string) db_record list"
  let ?co = "\<lparr>co_id = PStr ''a'', co_type = Some ''Building'',
        geometry = [\<lparr>gtype = ''Solid'', lod = ''1'', boundaries = PList [PList []]\<rparr>],
        attributes = [''name'' \<mapsto> PStr ''x'']\<rparr> :: (int, string) CityObject"
  have a: "snd (build_query ?gf ?ew features1 tx1 None (None :: int list option) None) = Inr ?plan"
    by (simp add: build_query_def features1_def tx1_def truthy_def query_all_def query_geometry_def
        getattr_geometry_def attr_select_def tbl_def List.map_filter_simps)
  have b: "(PStr ''a'', ?co) \<in> set (fst (table_to_cityobjects (PList []) id ?rows ''Building'' ''Solid'' ''1''))"
    by (simp add: record_to_cityobject_def getitem_def)
  have c: "\<forall>r \<in> set ?rows. fst ` set r \<subseteq> {''pk'', ''geom'', ''coid''} \<union> set (plan_attr ?plan)"
    by simp
  from attributes_never_key_columns [of "[]" features1 ?gf ?ew tx1 None None None "PList []" id ?rows
      "''Building''" "''Solid''" "''1''"] a b c
  have d: "dom (attributes ?co) \<inter> key_columns features1 = {}" "attributes ?co ''pk'' = None"
    by blast+
  from a b d show ?thesis by simp
qed

subsection \<open>What the scheduler executes and yields\<close>

lemma query_single_executed:
  "set (executed (query_single conn ew tx tables tile_list bbox extent)) \<subseteq> {FunctionQuery}"
proof (induction tables)
  case Nil
  then show ?case by simp
next
  case (Cons a tables)
  obtain cotype cotable where a: "a = (cotype, cotable)" by (cases a)
  from Cons show ?case unfolding a
    by (simp add: Let_def split: sum.splits)
qed

lemma build_whole1:
  "snd (build_query (get_fields conn1) (\<lambda>(p :: unit list) s. ''ewkt'') features1 tx1 None (None :: int list option) None)
     = Inr (whole_table ''building'')"
  by (simp add: build_query_def features1_def tx1_def truthy_def query_all_def query_geometry_def
        getattr_geometry_def attr_select_def tbl_def List.map_filter_simps conn1_def whole_table_def)

lemma build_whole2:
  "snd (build_query (get_fields conn1) (\<lambda>(p :: unit list) s. ''ewkt'') features2 tx1 None (None :: int list option) None)
     = Inr (whole_table ''building_part'')"
  by (simp add: build_query_def features1_def features2_def tx1_def truthy_def query_all_def query_geometry_def
        getattr_geometry_def attr_select_def tbl_def List.map_filter_simps conn1_def whole_table_def)

lemma get_dict_conn1: "get_dict conn1 a = Inr a"
  by (simp add: conn1_def)

lemma table_names: "table_name features1 = ''building''" "table_name features2 = ''building_part''"
  by (simp_all add: features1_def features2_def)

text \<open>
  Claim C4 asks that each table's own statement is executed and that each result set is
  yielded with the name of its table. With \<^verbatim>\<open>threads == 1\<close> every call of \<^verbatim>\<open>get_dict\<close>
  is handed the function \<^verbatim>\<open>query\<close> and never the statement composed for the table. With
  \<^verbatim>\<open>threads > 1\<close> the statements are executed, but each result set is yielded under the
  name of the last table: with two tables of one object type, the result of the first
  table's statement comes out under the second table's name.
\<close>

theorem query_scheduler_divergence:
  "set (executed (query conn ew ac tx cityobject_type (Some 1) tile_list bbox extent)) \<subseteq> {FunctionQuery}
   \<and> query conn1 (\<lambda>(p :: unit list) s. ''ewkt'') id tx1 [(''Building'', [features1, features2])] (Some 1) None None None
       = \<lparr>yielded = [((''Building'', ''building''), FunctionQuery),
                     ((''Building'', ''building_part''), FunctionQuery)],
          raised_exc = None,
          executed = [FunctionQuery, FunctionQuery]\<rparr>
   \<and> query conn1 (\<lambda>(p :: unit list) s. ''ewkt'') id tx1 [(''Building'', [features1, features2])] (Some 2) None None None
       = \<lparr>yielded = [((''Building'', ''building_part''), Statement (whole_table ''building'')),
                     ((''Building'', ''building_part''), Statement (whole_table ''building_part''))],
          raised_exc = None,
          executed = [Statement (whole_table ''building''), Statement (whole_table ''building_part'')]\<rparr>"
proof (intro conjI)
  show "set (executed (query conn ew ac tx cityobject_type (Some 1) tile_list bbox extent)) \<subseteq> {FunctionQuery}"
    by (simp add: query_def query_single_executed)
  show "query conn1 (\<lambda>(p :: unit list) s. ''ewkt'') id tx1 [(''Building'', [features1, features2])] (Some 1) None None None
       = \<lparr>yielded = [((''Building'', ''building''), FunctionQuery),
                     ((''Building'', ''building_part''), FunctionQuery)],
          raised_exc = None,
          executed = [FunctionQuery, FunctionQuery]\<rparr>"
    by (simp add: query_def build_whole1 build_whole2 get_dict_conn1 table_names)
  show "query conn1 (\<lambda>(p :: unit list) s. ''ewkt'') id tx1 [(''Building'', [features1, features2])] (Some 2) None None None
       = \<lparr>yielded = [((''Building'', ''building_part''), Statement (whole_table ''building'')),
                     ((''Building'', ''building_part''), Statement (whole_table ''building_part''))],
          raised_exc = None,
          executed = [Statement (whole_table ''building''), Statement (whole_table ''building_part'')]\<rparr>"
    by (simp add: query_def query_pool_def Let_def build_whole1 build_whole2 get_dict_conn1 table_names)
qed

subsection \<open>Parsing well-formed \<^verbatim>\<open>POLYGON Z\<close> text\<close>

lemma is_space_blank: "is_space (CHR '' '')"
  by (simp add: is_space_def)

lemma is_space_newline: "is_space newline"
  by (simp add: is_space_def newline_def)

lemma split_words_token:
  "list_all (\<lambda>c. \<not> is_space c) t \<Longrightarrow> split_words w (t @ rest) = split_words (w @ t) rest"
  by (induction t arbitrary: w) simp_all

lemma split_ws_join:
  "list_all (\<lambda>t. t \<noteq> [] \<and> list_all (\<lambda>c. \<not> is_space c) t) toks \<Longrightarrow>
     split_words [] (join '' '' toks) = toks"
proof (induction "'' ''" toks rule: join.induct)
  case 1
  then show ?case by simp
next
  case (2 x)
  then have "split_words [] (x @ []) = split_words ([] @ x) []"
    by (intro split_words_token) simp
  with 2 show ?case by simp
next
  case (3 x y ys)
  from 3(2) have x: "x \<noteq> []" "list_all (\<lambda>c. \<not> is_space c) x" by simp_all
  from 3(2) have r: "split_words [] (join '' '' (y # ys)) = y # ys" by (intro 3(1)) simp
  have "split_words [] (x @ '' '' @ join '' '' (y # ys)) = split_words ([] @ x) ('' '' @ join '' '' (y # ys))"
    by (rule split_words_token [OF x(2)])
  also have "\<dots> = x # split_words [] (join '' '' (y # ys))"
    using x(1) by (simp add: is_space_blank)
  finally show ?case using r by simp
qed

lemma split_on_nonempty: "split_on sep s \<noteq> []"
  by (induction s) (simp_all add: Let_def)

lemma split_on_token:
  "sep \<notin> set t \<Longrightarrow> split_on sep (t @ rest) = (t @ hd (split_on sep rest)) # tl (split_on sep rest)"
proof (induction t)
  case Nil
  then show ?case using split_on_nonempty [of sep rest] by simp
next
  case (Cons c t)
  then show ?case by (auto simp: Let_def)
qed

lemma split_on_join:
  "strs \<noteq> [] \<Longrightarrow> list_all (\<lambda>t. sep \<notin> set t) strs \<Longrightarrow> split_on sep (join [sep] strs) = strs"
proof (induction "[sep]" strs rule: join.induct)
  case 1
  then show ?case by simp
next
  case (2 x)
  then have "split_on sep (x @ []) = (x @ hd (split_on sep [])) # tl (split_on sep [])"
    by (intro split_on_token) simp
  then show ?case by simp
next
  case (3 x y ys)
  from 3(3) have x: "sep \<notin> set x" by simp
  from 3(3) have r: "split_on sep (join [sep] (y # ys)) = y # ys" by (intro 3(1)) simp_all
  have "split_on sep (x @ sep # join [sep] (y # ys))
          = (x @ hd (split_on sep (sep # join [sep] (y # ys)))) # tl (split_on sep (sep # join [sep] (y # ys)))"
    by (rule split_on_token [OF x])
  with r show ?case by simp
qed

lemma set_join: "set (join sep xs) \<subseteq> set sep \<union> \<Union> (set ` set xs)"
  by (induction sep xs rule: join.induct) auto

lemma join_nonempty: "xs \<noteq> [] \<Longrightarrow> hd xs \<noteq> [] \<Longrightarrow> join sep xs \<noteq> []"
  by (induction sep xs rule: join.induct) auto

lemma map_float_ok:
  "list_all (\<lambda>t. pyfloat t \<noteq> None) toks \<Longrightarrow>
     map_float pyfloat toks = Inr (map (\<lambda>tok. the (pyfloat tok)) toks)"
  by (induction toks) auto


lemma ring_findall_ring:
  assumes "body \<noteq> []" "CHR '')'' \<notin> set body"
  shows "ring_findall (CHR ''('' # body @ CHR '')'' # rest) = body # ring_findall rest"
proof -
  from assms(2) have a: "\<And>x. x \<in> set body \<Longrightarrow> x \<noteq> CHR '')''" by auto
  have t: "takeWhile (\<lambda>d. d \<noteq> CHR '')'') (body @ CHR '')'' # rest) = body"
    using a by (simp add: takeWhile_append2)
  have d: "dropWhile (\<lambda>d. d \<noteq> CHR '')'') (body @ CHR '')'' # rest) = CHR '')'' # rest"
    using a by (simp add: dropWhile_append2)
  show ?thesis using assms(1) by (simp add: t d)
qed

lemma ring_findall_comma: "ring_findall (CHR '','' # rest) = ring_findall rest"
  by simp

lemma wkt_ring_body: "wkt_ring ring = CHR ''('' # ring_body ring @ '')''"
  by (simp add: wkt_ring_def)

lemma ring_findall_join:
  "list_all (\<lambda>ring. ring_body ring \<noteq> [] \<and> CHR '')'' \<notin> set (ring_body ring)) rings \<Longrightarrow>
     ring_findall (join '','' (map wkt_ring rings)) = map ring_body rings"
proof (induction rings)
  case Nil
  then show ?case by simp
next
  case (Cons r rs)
  from Cons.prems have b: "ring_body r \<noteq> []" "CHR '')'' \<notin> set (ring_body r)" by simp_all
  show ?case
  proof (cases rs)
    case Nil
    with ring_findall_ring [OF b, of "[]"] show ?thesis by (simp add: wkt_ring_body)
  next
    case (Cons r' rs')
    from Cons.IH Cons.prems have ih: "ring_findall (join '','' (map wkt_ring rs)) = map ring_body rs"
      by simp
    have "ring_findall (join '','' (map wkt_ring (r # rs)))
            = ring_findall (CHR ''('' # ring_body r @ CHR '')'' # CHR '','' # join '','' (map wkt_ring rs))"
      using Cons by (simp add: wkt_ring_body)
    also have "\<dots> = ring_body r # ring_findall (CHR '','' # join '','' (map wkt_ring rs))"
      by (rule ring_findall_ring [OF b])
    finally show ?thesis using ih by (simp del: ring_findall.simps add: ring_findall_comma)
  qed
qed

lemma outer_attempt_body:
  assumes "newline \<notin> set body"
  shows "outer_attempt (body @ '')'') = Some body"
proof -
  have n: "CHR '')'' \<noteq> newline" by (simp add: newline_def)
  from assms n have "\<And>x. x \<in> set (body @ '')'') \<Longrightarrow> x \<noteq> newline" by auto
  then have line: "takeWhile (\<lambda>c. c \<noteq> newline) (body @ '')'') = body @ '')''"
    by (simp add: takeWhile_eq_all_conv)
  have r: "rev [0..<Suc (length (body @ '')''))] = Suc (length body) # length body # rev [0..<length body]"
    by simp
  show ?thesis
    unfolding outer_attempt_def Let_def line r
    using n by (simp add: at_dollar_def)
qed

lemma outer_search_literal:
  "outer_search [] (''POLYGON Z ('' @ c # cs) = outer_search ''POLYGON Z ('' (c # cs)"
  by (simp add: suffix_def)

lemma outer_search_here:
  "outer_attempt (c # cs) = Some m \<Longrightarrow> outer_search ''POLYGON Z ('' (c # cs) = Some m"
  by simp


lemma coordinate_token_plain: "coordinate_token pyfloat tok \<Longrightarrow> list_all plain tok"
  by (simp add: coordinate_token_def list_all_iff plain_def)

lemma chars_point:
  assumes "list_all (coordinate_token pyfloat) pt" "c \<in> set (join '' '' pt)"
  shows "c = CHR '' '' \<or> plain c"
proof -
  from assms(2) set_join [of "'' ''" pt] have "c \<in> set '' '' \<or> (\<exists>t \<in> set pt. c \<in> set t)" by auto
  then show ?thesis
  proof
    assume "c \<in> set '' ''"
    then show ?thesis by simp
  next
    assume "\<exists>t \<in> set pt. c \<in> set t"
    then obtain t where t: "t \<in> set pt" "c \<in> set t" by auto
    with assms(1) have "coordinate_token pyfloat t" by (simp add: list_all_iff)
    from coordinate_token_plain [OF this] t(2) show ?thesis by (simp add: list_all_iff)
  qed
qed

lemma wellformed_rings_iff: "wellformed_rings pyfloat rings = list_all (wellformed_ring pyfloat) rings"
  by (simp add: wellformed_rings_def)

lemma chars_ring_body:
  assumes "wellformed_ring pyfloat ring" "c \<in> set (ring_body ring)"
  shows "c = CHR '','' \<or> c = CHR '' '' \<or> plain c"
proof -
  from assms(2) set_join [of "'',''" "map (join '' '') ring"]
  have "c \<in> set '','' \<or> (\<exists>pt \<in> set ring. c \<in> set (join '' '' pt))"
    unfolding ring_body_def by auto
  then show ?thesis
  proof
    assume "c \<in> set '',''"
    then show ?thesis by simp
  next
    assume "\<exists>pt \<in> set ring. c \<in> set (join '' '' pt)"
    then obtain pt where pt: "pt \<in> set ring" "c \<in> set (join '' '' pt)" by auto
    with assms(1) have "list_all (coordinate_token pyfloat) pt"
      by (simp add: wellformed_ring_def list_all_iff)
    from chars_point [OF this pt(2)] show ?thesis by simp
  qed
qed

lemma ring_body_nonempty:
  assumes "wellformed_ring pyfloat ring"
  shows "ring_body ring \<noteq> []"
proof -
  from assms obtain pt pts where r: "ring = pt # pts" by (cases ring) (auto simp: wellformed_ring_def)
  with assms obtain tok toks where p: "pt = tok # toks" "coordinate_token pyfloat tok"
    by (cases pt) (auto simp: wellformed_ring_def)
  then have "tok \<noteq> []" by (simp add: coordinate_token_def)
  with p have "join '' '' pt \<noteq> []" by (intro join_nonempty) simp_all
  with r show ?thesis unfolding ring_body_def by (intro join_nonempty) simp_all
qed

lemma ring_body_no_paren:
  assumes "wellformed_ring pyfloat ring"
  shows "CHR '')'' \<notin> set (ring_body ring)"
proof
  assume "CHR '')'' \<in> set (ring_body ring)"
  from chars_ring_body [OF assms this] show False by (simp add: plain_def)
qed

lemma ring_body_no_newline:
  assumes "wellformed_ring pyfloat ring"
  shows "newline \<notin> set (ring_body ring)"
proof
  assume "newline \<in> set (ring_body ring)"
  from chars_ring_body [OF assms this] show False
    by (simp add: plain_def is_space_newline) (simp add: newline_def)
qed

lemma rings_no_newline:
  assumes "list_all (wellformed_ring pyfloat) rings"
  shows "newline \<notin> set (join '','' (map wkt_ring rings))"
proof
  assume "newline \<in> set (join '','' (map wkt_ring rings))"
  with set_join [of "'',''" "map wkt_ring rings"]
  have "newline \<in> set '','' \<or> (\<exists>ring \<in> set rings. newline \<in> set (wkt_ring ring))" by auto
  then show False
  proof
    assume "newline \<in> set '',''"
    then show False by (simp add: newline_def)
  next
    assume "\<exists>ring \<in> set rings. newline \<in> set (wkt_ring ring)"
    then obtain ring where r: "ring \<in> set rings" "newline \<in> set (wkt_ring ring)" by auto
    with assms have w: "wellformed_ring pyfloat ring" by (simp add: list_all_iff)
    from r(2) have "newline \<in> set (ring_body ring)"
      by (simp add: wkt_ring_body) (simp add: newline_def)
    with ring_body_no_newline [OF w] show False by simp
  qed
qed

lemma outer_search_text:
  assumes "list_all (wellformed_ring pyfloat) rings"
  shows "outer_search [] (wkt_polygonz_text rings) = Some (join '','' (map wkt_ring rings))"
proof -
  let ?J = "join '','' (map wkt_ring rings)"
  obtain c cs where x: "?J @ '')'' = c # cs" by (cases "?J @ '')''") simp_all
  from outer_attempt_body [OF rings_no_newline [OF assms]]
  have "outer_attempt (c # cs) = Some ?J" unfolding x .
  from outer_search_here [OF this] have "outer_search ''POLYGON Z ('' (c # cs) = Some ?J" .
  then have "outer_search [] (''POLYGON Z ('' @ c # cs) = Some ?J"
    by (simp only: outer_search_literal)
  then show ?thesis unfolding wkt_polygonz_text_def x .
qed

lemma parse_points_ring:
  "list_all (\<lambda>pt. pt \<noteq> [] \<and> list_all (coordinate_token pyfloat) pt) pts \<Longrightarrow>
     parse_points pyfloat (map (join '' '') pts) = Inr (raw_ring pyfloat pts)"
proof (induction pts)
  case Nil
  then show ?case by (simp add: raw_ring_def)
next
  case (Cons pt pts)
  from Cons.prems have t: "list_all (coordinate_token pyfloat) pt" by simp
  then have "list_all (\<lambda>t. t \<noteq> [] \<and> list_all (\<lambda>c. \<not> is_space c) t) pt"
    by (simp add: list_all_iff coordinate_token_def)
  from split_ws_join [OF this] have s: "split_ws (join '' '' pt) = pt" by (simp add: split_ws_def)
  from t have "list_all (\<lambda>t. pyfloat t \<noteq> None) pt" by (simp add: list_all_iff coordinate_token_def)
  from map_float_ok [OF this] have m: "map_float pyfloat pt = Inr (map (\<lambda>tok. the (pyfloat tok)) pt)" .
  from Cons have "parse_points pyfloat (map (join '' '') pts) = Inr (raw_ring pyfloat pts)" by simp
  with s m show ?case by (simp add: raw_ring_def)
qed

lemma split_ring_body:
  assumes "wellformed_ring pyfloat ring"
  shows "split_on CHR '','' (ring_body ring) = map (join '' '') ring"
proof -
  have "list_all (\<lambda>t. CHR '','' \<notin> set t) (map (join '' '') ring)"
  proof (unfold list_all_iff, intro ballI notI)
    fix t assume t: "t \<in> set (map (join '' '') ring)" and c: "CHR '','' \<in> set t"
    from t obtain pt where pt: "pt \<in> set ring" "t = join '' '' pt" by auto
    with assms have "list_all (coordinate_token pyfloat) pt"
      by (simp add: wellformed_ring_def list_all_iff)
    from chars_point [OF this c [unfolded pt(2)]] show False by (simp add: plain_def)
  qed
  moreover from assms have "map (join '' '') ring \<noteq> []" by (simp add: wellformed_ring_def)
  ultimately show ?thesis unfolding ring_body_def by (intro split_on_join)
qed

lemma parse_rings_bodies:
  "list_all (wellformed_ring pyfloat) rings \<Longrightarrow>
     parse_rings pyfloat (map ring_body rings) = (map (\<lambda>ring. tl (raw_ring pyfloat ring)) rings, None)"
proof (induction rings)
  case Nil
  then show ?case by simp
next
  case (Cons ring rings)
  from Cons.prems have w: "wellformed_ring pyfloat ring" by simp
  then have "list_all (\<lambda>pt. pt \<noteq> [] \<and> list_all (coordinate_token pyfloat) pt) ring"
    by (simp add: wellformed_ring_def)
  from parse_points_ring [OF this] split_ring_body [OF w]
  have p: "parse_points pyfloat (split_on CHR '','' (ring_body ring)) = Inr (raw_ring pyfloat ring)"
    by simp
  from Cons have "parse_rings pyfloat (map ring_body rings) = (map (\<lambda>ring. tl (raw_ring pyfloat ring)) rings, None)"
    by simp
  with p show ?case by (simp add: drop_Suc)
qed

lemma parse_polygonz_text:
  assumes "wellformed_rings pyfloat rings"
  shows "parse_polygonz pyfloat (wkt_polygonz_text rings)
           = ([], map (\<lambda>ring. tl (raw_ring pyfloat ring)) rings, None)"
proof -
  from assms have w: "list_all (wellformed_ring pyfloat) rings" by (simp add: wellformed_rings_iff)
  then have "list_all (\<lambda>ring. ring_body ring \<noteq> [] \<and> CHR '')'' \<notin> set (ring_body ring)) rings"
    by (auto simp: list_all_iff dest: ring_body_nonempty ring_body_no_paren)
  from ring_findall_join [OF this] outer_search_text [OF w] parse_rings_bodies [OF w]
  show ?thesis by (simp add: parse_polygonz_def)
qed


lemma expand_points_set: "set (expand_points polygons) = {r \<in> set polygons. 1 < dp_vertex r}"
  by (auto simp: expand_points_def)

lemma expand_points_mset: "mset (expand_points polygons) = filter_mset (\<lambda>r. 1 < dp_vertex r) (mset polygons)"
  by (simp add: expand_points_def)

text \<open>
  Claim C1: \<^verbatim>\<open>expand_points\<close> keeps the dumped points whose vertex index is greater than 1,
  all of them and nothing else; and for well-formed \<^verbatim>\<open>POLYGON Z\<close> text with \<open>n\<close> rings,
  \<^verbatim>\<open>parse_polygonz\<close> logs nothing, raises nothing and yields \<open>n\<close> rings, each the points of
  the ring in the text without the first, so one point shorter.
\<close>

theorem closing_vertex_removed:
  "(\<forall>r \<in> set (expand_points polygons). 1 < dp_vertex r)
   \<and> mset (expand_points polygons) = filter_mset (\<lambda>r. 1 < dp_vertex r) (mset polygons)
   \<and> (wellformed_rings pyfloat rings \<longrightarrow>
        parse_polygonz pyfloat (wkt_polygonz_text rings)
          = ([], map (\<lambda>ring. tl (raw_ring pyfloat ring)) rings, None)
        \<and> length (fst (snd (parse_polygonz pyfloat (wkt_polygonz_text rings)))) = length rings
        \<and> map length (fst (snd (parse_polygonz pyfloat (wkt_polygonz_text rings))))
            = map (\<lambda>ring. length (raw_ring pyfloat ring) - 1) rings)"
proof (intro conjI impI)
  show "\<forall>r \<in> set (expand_points polygons). 1 < dp_vertex r"
    by (simp add: expand_points_set)
  show "mset (expand_points polygons) = filter_mset (\<lambda>r. 1 < dp_vertex r) (mset polygons)"
    by (rule expand_points_mset)
next
  assume w: "wellformed_rings pyfloat rings"
  note p = parse_polygonz_text [OF w]
  show "parse_polygonz pyfloat (wkt_polygonz_text rings)
          = ([], map (\<lambda>ring. tl (raw_ring pyfloat ring)) rings, None)"
    by (rule p)
  show "length (fst (snd (parse_polygonz pyfloat (wkt_polygonz_text rings)))) = length rings"
    by (simp add: p)
  show "map length (fst (snd (parse_polygonz pyfloat (wkt_polygonz_text rings))))
            = map (\<lambda>ring. length (raw_ring pyfloat ring) - 1) rings"
    by (simp add: p comp_def)
qed

theorem closing_vertex_removed_witness:
  "wellformed_rings float01
     [[[''0'', ''0'', ''0''], [''1'', ''0'', ''0''], [''1'', ''1'', ''0''], [''0'', ''0'', ''0'']],
      [[''1'', ''1'', ''1''], [''0'', ''1'', ''1''], [''1'', ''1'', ''1'']]]
   \<and> parse_polygonz float01 ''POLYGON Z ((0 0 0,1 0 0,1 1 0,0 0 0),(1 1 1,0 1 1,1 1 1))''
       = ([], [[[1, 0, 0], [1, 1, 0], [0, 0, 0]], [[0, 1, 1], [1, 1, 1]]], None)
   \<and> map dp_vertex (expand_points
        [\<lparr>dp_pk = 1, dp_exterior = 1, dp_interior = 1, dp_vertex = 2, dp_point = [1, 0, 0 :: int]\<rparr>,
         \<lparr>dp_pk = 1, dp_exterior = 1, dp_interior = 1, dp_vertex = 1, dp_point = [0, 0, 0]\<rparr>,
         \<lparr>dp_pk = 1, dp_exterior = 1, dp_interior = 1, dp_vertex = 3, dp_point = [0, 0, 0]\<rparr>]) = [2, 3]"
proof -
  let ?rings = "[[[''0'', ''0'', ''0''], [''1'', ''0'', ''0''], [''1'', ''1'', ''0''], [''0'', ''0'', ''0'']],
      [[''1'', ''1'', ''1''], [''0'', ''1'', ''1''], [''1'', ''1'', ''1'']]]"
  have w: "wellformed_rings float01 ?rings"
    by (simp add: wellformed_rings_def wellformed_ring_def coordinate_token_def float01_def is_space_def)
  have t: "wkt_polygonz_text ?rings = ''POLYGON Z ((0 0 0,1 0 0,1 1 0,0 0 0),(1 1 1,0 1 1,1 1 1))''"
    by (simp add: wkt_polygonz_text_def wkt_ring_def ring_body_def)
  have r: "map (\<lambda>ring. tl (raw_ring float01 ring)) ?rings
             = [[[1, 0, 0], [1, 1, 0], [0, 0, 0]], [[0, 1, 1], [1, 1, 1]]]"
    by (simp add: raw_ring_def float01_def)
  note c = closing_vertex_removed [of "[]" float01 ?rings]
  from c [THEN conjunct2, THEN conjunct2, THEN mp, OF w, THEN conjunct1]
  have p: "parse_polygonz float01 (wkt_polygonz_text ?rings)
          = ([], map (\<lambda>ring. tl (raw_ring float01 ring)) ?rings, None)" .
  have e: "map dp_vertex (expand_points
        [\<lparr>dp_pk = 1, dp_exterior = 1, dp_interior = 1, dp_vertex = 2, dp_point = [1, 0, 0 :: int]\<rparr>,
         \<lparr>dp_pk = 1, dp_exterior = 1, dp_interior = 1, dp_vertex = 1, dp_point = [0, 0, 0]\<rparr>,
         \<lparr>dp_pk = 1, dp_exterior = 1, dp_interior = 1, dp_vertex = 3, dp_point = [0, 0, 0]\<rparr>]) = [2, 3]"
    by (simp add: expand_points_def insort_key.simps)
  from w p [unfolded t r] e show ?thesis by (intro conjI)
qed

subsection \<open>Morton codes\<close>

lemma interleave_step:
  fixes a b m :: nat
  assumes "a < 2" "b < 2"
  shows "(a + 2 * b + 4 * m) div 4 = m" "(a + 2 * b + 4 * m) mod 2 = a"
    "(a + 2 * b + 4 * m) div 2 mod 2 = b"
  using assms by presburger+

text \<open>
  Claim C5: for non-negative integers \<open>x\<close> and \<open>y\<close> within the precision, decoding the
  Morton code of \<open>(x, y)\<close> gives \<open>(x, y)\<close> back.
\<close>

theorem morton_roundtrip:
  "x < 2 ^ w \<Longrightarrow> y < 2 ^ w \<Longrightarrow> rev_morton_code w (morton_code w x y) = (x, y)"
proof (induction w arbitrary: x y)
  case 0
  then show ?case by simp
next
  case (Suc w)
  from Suc.prems have "x div 2 < 2 ^ w" "y div 2 < 2 ^ w" by auto
  from Suc.IH [OF this]
  have ih: "rev_morton_code w (morton_code w (x div 2) (y div 2)) = (x div 2, y div 2)" .
  have a: "x mod 2 < 2" "y mod 2 < 2" by simp_all
  show ?case
    by (simp add: interleave_step [OF a] ih del: One_nat_def)
qed

theorem morton_roundtrip_witness:
  "(5::nat) < 2 ^ 8 \<and> (3::nat) < 2 ^ 8 \<and> morton_code 8 5 3 = 27 \<and>
   rev_morton_code 8 (morton_code 8 5 3) = (5, 3)"
proof -
  have a: "(5::nat) < 2 ^ 8" by simp
  have a': "(3::nat) < 2 ^ 8" by simp
  have b: "morton_code 8 5 3 = 27" by code_simp
  note c = morton_roundtrip [OF a a']
  from a a' b c show ?thesis by (intro conjI)
qed

end
